theory Spec2Isabelle
  imports Main "HOL-Library.Word"
begin

unbundle bit_operations_syntax

section \<open>Values shared by all packages\<close>

type_synonym byte = "8 word"

text \<open>Go errors. \<open>ErrNew s\<close> is an error whose text is \<open>s\<close> (\<open>errors.New\<close>, or
  \<open>fmt.Errorf\<close> without \<open>%w\<close>); \<open>ErrWrap p e\<close> is \<open>fmt.Errorf(p + "%w", e)\<close>.\<close>

datatype err = ErrNew string | ErrWrap string err

fun err_Error :: "err \<Rightarrow> string" where
  "err_Error (ErrNew s) = s"
| "err_Error (ErrWrap p e) = p @ err_Error e"

definition io_EOF :: err where
  "io_EOF = ErrNew ''EOF''"

definition io_ErrUnexpectedEOF :: err where
  "io_ErrUnexpectedEOF = ErrNew ''unexpected EOF''"

text \<open>\<open>time.Time\<close> as nanoseconds since the Unix epoch, \<open>time.Duration\<close> as nanoseconds.\<close>

type_synonym Time = int
type_synonym Duration = int

definition time_Second :: Duration where
  "time_Second = 1000000000"

definition time_Add :: "Time \<Rightarrow> Duration \<Rightarrow> Time" where
  "time_Add t d = t + d"

definition time_Unix :: "Time \<Rightarrow> int" where
  "time_Unix t = t div 1000000000"

section \<open>Package protocol (internal/protocol/message.go)\<close>

type_synonym MessageType = string

definition MessageTypeHealthCheck :: MessageType where
  "MessageTypeHealthCheck = ''health_check''"

definition MessageTypeHealthResponse :: MessageType where
  "MessageTypeHealthResponse = ''health_response''"

definition MessageTypeDBConnect :: MessageType where
  "MessageTypeDBConnect = ''db_connect''"

definition MessageTypeDBConnectResponse :: MessageType where
  "MessageTypeDBConnectResponse = ''db_connect_response''"

definition MessageTypeQuery :: MessageType where
  "MessageTypeQuery = ''query''"

definition MessageTypeQueryResponse :: MessageType where
  "MessageTypeQueryResponse = ''query_response''"

definition MessageTypeError :: MessageType where
  "MessageTypeError = ''error''"

text \<open>The loosely typed values of \<open>map[string]interface{}\<close>.\<close>

datatype val = VNil | VBool bool | VInt int | VStr string | VArr "val list"
  | VMap "(string \<times> val) list"

text \<open>\<open>Data\<close> is a Go map, which may be nil: \<open>None\<close> is the nil map.\<close>

record Message =
  ID :: string
  Type :: MessageType
  Timestamp :: Time
  Data :: "(string \<rightharpoonup> val) option"

record HealthCheckResponse =
  hc_Message :: Message
  Status :: string
  hc_Timestamp :: int
  Version :: string

record ErrorResponse =
  er_Message :: Message
  Error :: string
  Code :: int
  Details :: string

text \<open>Functions of libraries outside the repository: the msgpack serializer (applied to a
  possibly nil \<open>*Message\<close>), its deserializer into a \<open>Message\<close>, and \<open>Time.Format\<close> with
  the layout of \<open>generateID\<close>.\<close>

record ext =
  msgpack_Marshal :: "Message option \<Rightarrow> err + byte list"
  msgpack_Unmarshal :: "byte list \<Rightarrow> err + Message"
  time_Format :: "Time \<Rightarrow> string"

text \<open>The part of the process a handler can reach: the clock (the successive readings of
  \<open>time.Now()\<close>), the server's context (cancelled from the \<open>cancel_at\<close>-th poll on) and the
  logger's output.\<close>

datatype level = LDebug | LInfo | LWarn | LError

record rt =
  clock :: "nat \<Rightarrow> Time"
  ticks :: nat
  cancel_at :: "nat option"
  polls :: nat
  logs :: "(level \<times> string) list"

definition time_Now :: "rt \<Rightarrow> Time \<times> rt" where
  "time_Now r = (clock r (ticks r), r\<lparr>ticks := Suc (ticks r)\<rparr>)"

definition ctx_Done :: "rt \<Rightarrow> bool \<times> rt" where
  "ctx_Done r =
     ((case cancel_at r of None \<Rightarrow> False | Some k \<Rightarrow> k \<le> polls r),
      r\<lparr>polls := Suc (polls r)\<rparr>)"

definition logger_log :: "level \<Rightarrow> string \<Rightarrow> rt \<Rightarrow> rt" where
  "logger_log lvl msg r = r\<lparr>logs := logs r @ [(lvl, msg)]\<rparr>"

definition generateID :: "ext \<Rightarrow> rt \<Rightarrow> string \<times> rt" where
  "generateID x r = (case time_Now r of (t, r1) \<Rightarrow> (time_Format x t, r1))"

definition NewMessage ::
  "ext \<Rightarrow> MessageType \<Rightarrow> (string \<rightharpoonup> val) option \<Rightarrow> rt \<Rightarrow> Message \<times> rt" where
  "NewMessage x msgType data r =
     (case generateID x r of (i, r1) \<Rightarrow>
      case time_Now r1 of (t, r2) \<Rightarrow>
        (\<lparr>ID = i, Type = msgType, Timestamp = t, Data = data\<rparr>, r2))"

definition NewHealthCheckResponse ::
  "ext \<Rightarrow> string \<Rightarrow> string \<Rightarrow> rt \<Rightarrow> HealthCheckResponse \<times> rt" where
  "NewHealthCheckResponse x status version r =
     (case NewMessage x MessageTypeHealthResponse None r of (m, r1) \<Rightarrow>
      case time_Now r1 of (t, r2) \<Rightarrow>
        (\<lparr>hc_Message = m, Status = status, hc_Timestamp = time_Unix t, Version = version\<rparr>, r2))"

definition NewErrorResponse ::
  "ext \<Rightarrow> err \<Rightarrow> int \<Rightarrow> string \<Rightarrow> rt \<Rightarrow> ErrorResponse \<times> rt" where
  "NewErrorResponse x e code details r =
     (case NewMessage x MessageTypeError None r of (m, r1) \<Rightarrow>
        (\<lparr>er_Message = m, Error = err_Error e, Code = code, Details = details\<rparr>, r1))"

section \<open>Package ipc (internal/ipc/server.go)\<close>

subsection \<open>Connections\<close>

text \<open>One \<open>net.Conn\<close>, seen from the server. \<open>inbound\<close> are the bytes the peer still
  delivers and \<open>in_err\<close> the error \<open>Read\<close> reports once they are used up (\<open>io.EOF\<close> after a
  close by the peer, a timeout otherwise); \<open>out_room\<close> is the number of bytes the peer
  still takes before \<open>Write\<close> fails with \<open>out_err\<close> (\<open>None\<close>: no limit). \<open>io\<close> records
  the calls made on the connection, oldest first.\<close>

datatype event =
    SetDeadline Time
  | SetReadDeadline Time
  | SetWriteDeadline Time
  | Read nat "byte list"
  | Write "byte list" nat
  | Close

record conn =
  inbound :: "byte list"
  in_err :: err
  out_room :: "nat option"
  out_err :: err
  io :: "event list"

definition conn_call :: "event \<Rightarrow> conn \<Rightarrow> conn" where
  "conn_call e c = c\<lparr>io := io c @ [e]\<rparr>"

text \<open>\<open>io.ReadFull(conn, buf)\<close> with \<open>len(buf) = n\<close>: all \<open>n\<close> bytes, or the error of
  \<open>io.ReadAtLeast\<close> (\<open>io.EOF\<close> after some bytes becomes \<open>io.ErrUnexpectedEOF\<close>).\<close>

definition io_ReadFull :: "nat \<Rightarrow> conn \<Rightarrow> (err + byte list) \<times> conn" where
  "io_ReadFull n c =
     (if n \<le> length (inbound c)
      then (Inr (take n (inbound c)),
            conn_call (Read n (take n (inbound c))) (c\<lparr>inbound := drop n (inbound c)\<rparr>))
      else (Inl (if inbound c \<noteq> [] \<and> in_err c = io_EOF then io_ErrUnexpectedEOF
                 else in_err c),
            conn_call (Read n (inbound c)) (c\<lparr>inbound := []\<rparr>)))"

text \<open>\<open>conn.Write(b)\<close>: every byte, or as many as the peer still takes and the error.\<close>

definition conn_Write :: "byte list \<Rightarrow> conn \<Rightarrow> err option \<times> conn" where
  "conn_Write b c =
     (case out_room c of
        None \<Rightarrow> (None, conn_call (Write b (length b)) c)
      | Some k \<Rightarrow>
          if length b \<le> k
          then (None, conn_call (Write b (length b)) (c\<lparr>out_room := Some (k - length b)\<rparr>))
          else (Some (out_err c), conn_call (Write b k) (c\<lparr>out_room := Some 0\<rparr>)))"

text \<open>\<open>binary.BigEndian\<close>. \<open>Uint32\<close> panics in Go on fewer than four bytes; its one call
  passes a buffer of four.\<close>

definition BigEndian_PutUint32 :: "32 word \<Rightarrow> byte list" where
  "BigEndian_PutUint32 v =
     [ucast (drop_bit 24 v), ucast (drop_bit 16 v), ucast (drop_bit 8 v), ucast v]"

fun BigEndian_Uint32 :: "byte list \<Rightarrow> 32 word" where
  "BigEndian_Uint32 (b0 # b1 # b2 # b3 # _) =
     ucast b3 OR push_bit 8 (ucast b2) OR push_bit 16 (ucast b1) OR push_bit 24 (ucast b0)"
| "BigEndian_Uint32 _ = 0"

subsection \<open>Server and configuration\<close>

datatype Logger = Logger string

record Config =
  SocketPath :: string
  PipeName :: string
  cfg_Logger :: "Logger option"
  DebugMode :: bool
  ReadTimeout :: Duration
  WriteTimeout :: Duration

record Listener =
  network :: string
  address :: string
  unlinkOnClose :: bool

type_synonym MessageHandler = "Message \<Rightarrow> rt \<Rightarrow> (Message option \<times> err option) \<times> rt"

record Server =
  config :: Config
  listener :: "Listener option"
  logger :: Logger
  handlers :: "MessageType \<rightharpoonup> MessageHandler"

subsection \<open>readMessage and writeMessage\<close>

definition readMessage :: "ext \<Rightarrow> Server \<Rightarrow> conn \<Rightarrow> rt \<Rightarrow> (err + Message) \<times> conn \<times> rt" where
  "readMessage x s c r =
     (case (if \<not> DebugMode (config s)
            then (case time_Now r of (t, r1) \<Rightarrow>
                    (conn_call (SetReadDeadline (time_Add t (ReadTimeout (config s)))) c, r1))
            else (c, r)) of (c1, r1) \<Rightarrow>
      case io_ReadFull 4 c1 of
        (Inl e, c2) \<Rightarrow> (Inl (ErrWrap ''failed to read message length: '' e), c2, r1)
      | (Inr lengthBytes, c2) \<Rightarrow>
          (case io_ReadFull (unat (BigEndian_Uint32 lengthBytes)) c2 of
             (Inl e, c3) \<Rightarrow> (Inl (ErrWrap ''failed to read message data: '' e), c3, r1)
           | (Inr data, c3) \<Rightarrow>
               (case msgpack_Unmarshal x data of
                  Inl e \<Rightarrow> (Inl (ErrWrap ''failed to unmarshal message: '' e), c3, r1)
                | Inr msg \<Rightarrow> (Inr msg, c3, r1))))"

definition writeMessage ::
  "ext \<Rightarrow> Server \<Rightarrow> Message option \<Rightarrow> conn \<Rightarrow> rt \<Rightarrow> err option \<times> conn \<times> rt" where
  "writeMessage x s msg c r =
     (case (if \<not> DebugMode (config s)
            then (case time_Now r of (t, r1) \<Rightarrow>
                    (conn_call (SetWriteDeadline (time_Add t (WriteTimeout (config s)))) c, r1))
            else (c, r)) of (c1, r1) \<Rightarrow>
      case msgpack_Marshal x msg of
        Inl e \<Rightarrow> (Some (ErrWrap ''failed to marshal message: '' e), c1, r1)
      | Inr data \<Rightarrow>
          (case conn_Write (BigEndian_PutUint32 (of_nat (length data))) c1 of
             (Some e, c2) \<Rightarrow> (Some (ErrWrap ''failed to write message length: '' e), c2, r1)
           | (None, c2) \<Rightarrow>
               (case conn_Write data c2 of
                  (Some e, c3) \<Rightarrow> (Some (ErrWrap ''failed to write message data: '' e), c3, r1)
                | (None, c3) \<Rightarrow> (None, c3, r1))))"

subsection \<open>Dispatch\<close>

definition handleHealthCheck :: "ext \<Rightarrow> MessageHandler" where
  "handleHealthCheck x msg r =
     (case NewHealthCheckResponse x ''healthy'' ''1.0.0''
             (logger_log LDebug ''Health check request received'' r) of
        (response, r1) \<Rightarrow> ((Some (hc_Message response), None), r1))"

definition registerDefaultHandlers :: "ext \<Rightarrow> Server \<Rightarrow> Server" where
  "registerDefaultHandlers x s =
     s\<lparr>handlers := (handlers s)(MessageTypeHealthCheck \<mapsto> handleHealthCheck x)\<rparr>"

definition handleMessage ::
  "ext \<Rightarrow> Server \<Rightarrow> Message \<Rightarrow> rt \<Rightarrow> (Message option \<times> err option) \<times> rt" where
  "handleMessage x s msg r =
     (case handlers s (Type msg) of
        None \<Rightarrow>
          (case NewErrorResponse x (ErrNew (''unknown message type: '' @ Type msg)) 400
                  ''Unsupported message type'' r of
             (errorResp, r1) \<Rightarrow> ((Some (er_Message errorResp), None), r1))
      | Some handler \<Rightarrow> handler msg r)"

subsection \<open>New\<close>

definition ipc_New :: "ext \<Rightarrow> Config \<Rightarrow> err + Server" where
  "ipc_New x cfg =
     (case cfg_Logger cfg of
        None \<Rightarrow> Inl (ErrNew ''logger is required'')
      | Some lg \<Rightarrow>
          (let cfg1 = (if ReadTimeout cfg = 0 then cfg\<lparr>ReadTimeout := 30 * time_Second\<rparr>
                       else cfg);
               cfg2 = (if WriteTimeout cfg1 = 0 then cfg1\<lparr>WriteTimeout := 30 * time_Second\<rparr>
                       else cfg1)
           in Inr (registerDefaultHandlers x
                     \<lparr>config = cfg2, listener = None, logger = lg, handlers = Map.empty\<rparr>)))"

subsection \<open>handleConnection\<close>

text \<open>The dispatch step of the loop body: the handler's message, or on a failure of the
  handler the message of a new error response.\<close>

definition handleConnection_respond ::
  "ext \<Rightarrow> Server \<Rightarrow> Message \<Rightarrow> rt \<Rightarrow> Message option \<times> rt" where
  "handleConnection_respond x s msg r =
     (case handleMessage x s msg r of
        ((response, herr), r1) \<Rightarrow>
          (case herr of
             None \<Rightarrow> (response, r1)
           | Some e \<Rightarrow>
               (case NewErrorResponse x e 500 ''Internal server error''
                       (logger_log LError ''Failed to handle message'' r1) of
                  (errorResp, r2) \<Rightarrow> (Some (er_Message errorResp), r2))))"

text \<open>The \<open>for\<close> loop of \<open>handleConnection\<close>. Every turn that goes on has read a length
  prefix, so the loop ends when the peer's bytes do.\<close>

function handleConnection_loop :: "ext \<Rightarrow> Server \<Rightarrow> conn \<Rightarrow> rt \<Rightarrow> conn \<times> rt" where
  "handleConnection_loop x s c r =
     (case ctx_Done r of
        (True, r1) \<Rightarrow> (c, r1)
      | (False, r1) \<Rightarrow>
          (case readMessage x s c r1 of
             (Inl e, c2, r2) \<Rightarrow>
               (if e = io_EOF
                then (c2, logger_log LDebug ''Connection closed by client'' r2)
                else (c2, logger_log LError ''Failed to read message'' r2))
           | (Inr msg, c2, r2) \<Rightarrow>
               (case handleConnection_respond x s msg r2 of
                  (response, r3) \<Rightarrow>
                    (case writeMessage x s response c2 r3 of
                       (Some e, c3, r4) \<Rightarrow>
                         (c3, logger_log LError ''Failed to write response'' r4)
                     | (None, c3, r4) \<Rightarrow> handleConnection_loop x s c3 r4))))"
  by pat_completeness auto

lemma io_ReadFull_inbound:
  "io_ReadFull n c = (Inr b, c1) \<Longrightarrow> length (inbound c1) + n = length (inbound c)"
  by (auto simp: io_ReadFull_def conn_call_def split: if_splits)

lemma conn_Write_inbound: "conn_Write b c = (e, c1) \<Longrightarrow> inbound c1 = inbound c"
  by (auto simp: conn_Write_def conn_call_def split: option.splits if_splits)

lemma readMessage_inbound:
  assumes "readMessage x s c r = (Inr msg, c1, r1)"
  shows "length (inbound c1) + 4 \<le> length (inbound c)"
proof -
  define c0 where
    "c0 = (if \<not> DebugMode (config s)
           then conn_call (SetReadDeadline (time_Add (fst (time_Now r)) (ReadTimeout (config s)))) c
           else c)"
  have c0: "inbound c0 = inbound c"
    by (simp add: c0_def conn_call_def)
  from assms obtain hdr c2 body where
    h: "io_ReadFull 4 c0 = (Inr hdr, c2)" and
    b: "io_ReadFull (unat (BigEndian_Uint32 hdr)) c2 = (Inr body, c1)"
    by (auto simp: readMessage_def c0_def split: prod.splits sum.splits if_splits)
  from io_ReadFull_inbound [OF h] io_ReadFull_inbound [OF b] c0 show ?thesis
    by simp
qed

lemma writeMessage_inbound:
  "writeMessage x s m c r = (e, c1, r1) \<Longrightarrow> inbound c1 = inbound c"
  by (auto simp: writeMessage_def conn_call_def
      split: prod.splits sum.splits option.splits if_splits dest!: conn_Write_inbound)

termination handleConnection_loop
proof (relation "measure (\<lambda>(x, s, c, r). length (inbound c))", goal_cases)
  case 1
  show ?case by simp
next
  case 2
  then show ?case
    by (auto dest!: readMessage_inbound [OF sym] writeMessage_inbound [OF sym])
qed

declare handleConnection_loop.simps [simp del]

definition handleConnection :: "ext \<Rightarrow> Server \<Rightarrow> conn \<Rightarrow> rt \<Rightarrow> conn \<times> rt" where
  "handleConnection x s c r =
     (case handleConnection_loop x s c (logger_log LDebug ''New connection established'' r) of
        (c1, r1) \<Rightarrow> (conn_call Close c1, r1))"

subsection \<open>Listeners, Start and Stop\<close>

text \<open>The operating system as the server meets it: the results of the calls it makes, and
  the path functions of \<open>path/filepath\<close>.\<close>

record sys =
  GOOS :: string
  os_TempDir :: string
  filepath_Join :: "string \<Rightarrow> string \<Rightarrow> string"
  filepath_Dir :: "string \<Rightarrow> string"
  os_Remove :: "string \<Rightarrow> err option"
  os_IsNotExist :: "err \<Rightarrow> bool"
  os_MkdirAll :: "string \<Rightarrow> err option"
  net_Listen :: "string \<Rightarrow> string \<Rightarrow> err + Listener"
  listener_Close :: "Listener \<Rightarrow> err option"

datatype syscall =
    Remove string
  | MkdirAll string
  | Listen string string
  | SetUnlinkOnClose bool
  | CloseListener Listener

text \<open>The process: the system calls made so far, the connections handed to a goroutine of
  \<open>Start\<close> (each still to be served, or being served), and the state handlers reach.\<close>

record proc =
  calls :: "syscall list"
  sessions :: "conn list"
  run :: rt

definition sys_call :: "syscall \<Rightarrow> proc \<Rightarrow> proc" where
  "sys_call k p = p\<lparr>calls := calls p @ [k]\<rparr>"

definition createUnixSocketListener :: "sys \<Rightarrow> Server \<Rightarrow> proc \<Rightarrow> (err + Listener) \<times> proc" where
  "createUnixSocketListener y s p =
     (let socketPath = (if SocketPath (config s) = []
                        then filepath_Join y (os_TempDir y) ''litebase.sock''
                        else SocketPath (config s));
          p1 = sys_call (Remove socketPath) p
      in case (case os_Remove y socketPath of
                 None \<Rightarrow> None
               | Some e \<Rightarrow> if \<not> os_IsNotExist y e then Some e else None) of
           Some e \<Rightarrow> (Inl (ErrWrap ''failed to remove existing socket: '' e), p1)
         | None \<Rightarrow>
             (let p2 = sys_call (MkdirAll (filepath_Dir y socketPath)) p1
              in case os_MkdirAll y (filepath_Dir y socketPath) of
                   Some e \<Rightarrow> (Inl (ErrWrap ''failed to create socket directory: '' e), p2)
                 | None \<Rightarrow>
                     (let p3 = sys_call (Listen ''unix'' socketPath) p2
                      in case net_Listen y ''unix'' socketPath of
                           Inl e \<Rightarrow>
                             (Inl (ErrWrap ''failed to create Unix socket listener: '' e), p3)
                         | Inr l \<Rightarrow>
                             (if network l = ''unix''
                              then (Inr (l\<lparr>unlinkOnClose := True\<rparr>),
                                    sys_call (SetUnlinkOnClose True) p3)
                              else (Inr l, p3)))))"

definition createNamedPipeListener :: "sys \<Rightarrow> Server \<Rightarrow> proc \<Rightarrow> (err + Listener) \<times> proc" where
  "createNamedPipeListener y s p =
     (let p1 = sys_call (Listen ''tcp'' ''127.0.0.1:0'') p
      in case net_Listen y ''tcp'' ''127.0.0.1:0'' of
           Inl e \<Rightarrow> (Inl (ErrWrap ''failed to create TCP listener: '' e), p1)
         | Inr l \<Rightarrow>
             (Inr l, p1\<lparr>run := logger_log LWarn
                ''Using TCP listener instead of Named Pipes on Windows'' (run p1)\<rparr>))"

text \<open>The goroutine \<open>Start\<close> launches for an accepted connection.\<close>

definition Start_serve :: "ext \<Rightarrow> Server \<Rightarrow> conn \<Rightarrow> rt \<Rightarrow> conn \<times> rt" where
  "Start_serve x s c r =
     (case (if \<not> DebugMode (config s)
            then (case time_Now r of (t, r1) \<Rightarrow>
                    (conn_call (SetDeadline (time_Add t (ReadTimeout (config s)))) c, r1))
            else (c, r)) of
        (c1, r1) \<Rightarrow> handleConnection x s c1 r1)"

text \<open>The accept loop of \<open>Start\<close>, over the results of its successive calls of
  \<open>listener.Accept()\<close>. When they are used up the loop blocks in \<open>Accept\<close>: the result
  \<open>None\<close> is a \<open>Start\<close> that has not returned.\<close>

fun Start_accept :: "Server \<Rightarrow> (err + conn) list \<Rightarrow> proc \<Rightarrow> err option option \<times> proc" where
  "Start_accept s [] p = (None, p)"
| "Start_accept s (Inl e # rest) p =
     (case ctx_Done (run p) of
        (True, r1) \<Rightarrow> (Some None, p\<lparr>run := r1\<rparr>)
      | (False, r1) \<Rightarrow>
          Start_accept s rest
            (p\<lparr>run := logger_log LError ''Failed to accept connection'' r1\<rparr>))"
| "Start_accept s (Inr c # rest) p = Start_accept s rest (p\<lparr>sessions := sessions p @ [c]\<rparr>)"

definition Start ::
  "sys \<Rightarrow> Server \<Rightarrow> (err + conn) list \<Rightarrow> proc \<Rightarrow> err option option \<times> Server \<times> proc" where
  "Start y s accepts p =
     (case (if GOOS y = ''windows'' then createNamedPipeListener y s p
            else createUnixSocketListener y s p) of
        (Inl e, p1) \<Rightarrow> (Some (Some (ErrWrap ''failed to create listener: '' e)), s, p1)
      | (Inr l, p1) \<Rightarrow>
          (let s1 = s\<lparr>listener := Some l\<rparr>;
               p2 = p1\<lparr>run := logger_log LInfo ''IPC server started'' (run p1)\<rparr>
           in case Start_accept s1 accepts p2 of (res, p3) \<Rightarrow> (res, s1, p3)))"

text \<open>\<open>s.cancel()\<close>: the context is done at every later poll.\<close>

definition ctx_cancel :: "rt \<Rightarrow> rt" where
  "ctx_cancel r =
     r\<lparr>cancel_at := Some (case cancel_at r of None \<Rightarrow> polls r | Some k \<Rightarrow> min k (polls r))\<rparr>"

definition Stop :: "sys \<Rightarrow> Server \<Rightarrow> proc \<Rightarrow> err option \<times> proc" where
  "Stop y s p =
     (let p1 = p\<lparr>run := ctx_cancel (run p)\<rparr>
      in case listener s of
           Some l \<Rightarrow> (listener_Close y l, sys_call (CloseListener l) p1)
         | None \<Rightarrow> (None, p1))"

section \<open>Package server (internal/server/server.go)\<close>

record server_Config =
  sc_SocketPath :: string
  sc_PipeName :: string
  Port :: int
  sc_Logger :: "Logger option"
  sc_DebugMode :: bool

record server_Server =
  sv_config :: server_Config
  ipc :: Server
  sv_logger :: Logger

definition server_New :: "ext \<Rightarrow> server_Config \<Rightarrow> err + server_Server" where
  "server_New x cfg =
     (case sc_Logger cfg of
        None \<Rightarrow> Inl (ErrNew ''logger is required'')
      | Some lg \<Rightarrow>
          (case ipc_New x \<lparr>SocketPath = sc_SocketPath cfg, PipeName = sc_PipeName cfg,
                            cfg_Logger = sc_Logger cfg, DebugMode = sc_DebugMode cfg,
                            ReadTimeout = 0, WriteTimeout = 0\<rparr> of
             Inl e \<Rightarrow> Inl (ErrWrap ''failed to create IPC server: '' e)
           | Inr ipcServer \<Rightarrow> Inr \<lparr>sv_config = cfg, ipc = ipcServer, sv_logger = lg\<rparr>))"

definition server_Start ::
  "sys \<Rightarrow> server_Server \<Rightarrow> (err + conn) list \<Rightarrow> proc
     \<Rightarrow> err option option \<times> server_Server \<times> proc" where
  "server_Start y s accepts p =
     (case Start y (ipc s) accepts
             (p\<lparr>run := logger_log LInfo ''Starting LiteBase Backend Server'' (run p)\<rparr>) of
        (res, i1, p1) \<Rightarrow>
          ((case res of
              Some (Some e) \<Rightarrow> Some (Some (ErrWrap ''failed to start IPC server: '' e))
            | _ \<Rightarrow> res),
           s\<lparr>ipc := i1\<rparr>, p1))"

text \<open>\<open>Shutdown(ctx)\<close> starts a goroutine that runs \<open>Stop\<close> and sends its result, and
  waits in a \<open>select\<close> for that result or for the context of the call. \<open>Finished\<close>:
  the result is taken, so \<open>Stop\<close> has run. \<open>TimedOut e g\<close>: the context is done first,
  with \<open>ctx.Err() = e\<close>, and \<open>Shutdown\<close> returns without waiting for the goroutine, which
  by then has come as far as \<open>g\<close>: it has not run, or has cancelled the server's context,
  or has also closed the listener.\<close>

datatype progress = NotRun | Cancelled | Stopped

datatype select = Finished | TimedOut err progress

definition Shutdown :: "sys \<Rightarrow> server_Server \<Rightarrow> select \<Rightarrow> proc \<Rightarrow> err option \<times> proc" where
  "Shutdown y s sel p =
     (let p0 = p\<lparr>run := logger_log LInfo ''Shutting down server...'' (run p)\<rparr>
      in case sel of
           Finished \<Rightarrow>
             (case Stop y (ipc s) p0 of
                (Some e, p1) \<Rightarrow> (Some (ErrWrap ''failed to stop IPC server: '' e), p1)
              | (None, p1) \<Rightarrow>
                  (None, p1\<lparr>run := logger_log LInfo
                     ''Server shutdown completed successfully'' (run p1)\<rparr>))
         | TimedOut e g \<Rightarrow>
             (Some (ErrWrap ''server shutdown timed out: '' e),
              case g of
                NotRun \<Rightarrow> p0
              | Cancelled \<Rightarrow> p0\<lparr>run := ctx_cancel (run p0)\<rparr>
              | Stopped \<Rightarrow> snd (Stop y (ipc s) p0)))"

section \<open>The second server file of package ipc (src/unnamed/part_000)\<close>

text \<open>This file differs from \<open>internal/ipc/server.go\<close> in \<open>readMessage\<close> and
  \<open>writeMessage\<close>, which hand the connection to a msgpack decoder and encoder, and in
  having no timeouts. The streaming decoder is a library function: on the bytes the peer
  still delivers and the error that follows them it gives its result and the number of
  bytes it took.\<close>

type_synonym Decoder = "byte list \<Rightarrow> err \<Rightarrow> (err + Message) \<times> nat"

definition stream_readMessage :: "Decoder \<Rightarrow> conn \<Rightarrow> (err + Message) \<times> conn" where
  "stream_readMessage dec c =
     (case dec (inbound c) (in_err c) of
        (res, k) \<Rightarrow>
          (res, conn_call (Read k (take k (inbound c))) (c\<lparr>inbound := drop k (inbound c)\<rparr>)))"

definition stream_writeMessage :: "ext \<Rightarrow> Message option \<Rightarrow> conn \<Rightarrow> err option \<times> conn" where
  "stream_writeMessage x msg c =
     (case msgpack_Marshal x msg of
        Inl e \<Rightarrow> (Some e, c)
      | Inr data \<Rightarrow> conn_Write data c)"

section \<open>Observing a connection\<close>

text \<open>The bytes that reached the peer, read off the calls made on the connection.\<close>

fun written :: "event list \<Rightarrow> byte list" where
  "written [] = []"
| "written (Write b k # es) = take k b @ written es"
| "written (_ # es) = written es"

fun is_deadline :: "event \<Rightarrow> bool" where
  "is_deadline (SetDeadline _) = True"
| "is_deadline (SetReadDeadline _) = True"
| "is_deadline (SetWriteDeadline _) = True"
| "is_deadline _ = False"

text \<open>The wire frame of a message: the four bytes of the length, then the payload.\<close>

definition frame :: "ext \<Rightarrow> Message option \<Rightarrow> byte list" where
  "frame x m =
     (case msgpack_Marshal x m of
        Inl e \<Rightarrow> []
      | Inr data \<Rightarrow> BigEndian_PutUint32 (of_nat (length data)) @ data)"

text \<open>Strictly synchronous processing, as a property of the calls on one connection: a
  length prefix is read, then the payload it announces, then a length prefix is written,
  then the payload it announces, and only then the next length prefix is read. A read or
  write that comes short ends the exchange, and \<open>Close\<close> comes last. Deadline calls move
  no bytes and are passed over.\<close>

datatype phase = AwaitHeader | AwaitPayload nat | Reply | ReplyPayload nat | Ended

fun lockstep :: "phase \<Rightarrow> event list \<Rightarrow> bool" where
  "lockstep ph [] = True"
| "lockstep AwaitHeader (Read n b # es) =
     (n = 4 \<and> lockstep (if length b = 4 then AwaitPayload (unat (BigEndian_Uint32 b))
                          else Ended) es)"
| "lockstep (AwaitPayload k) (Read n b # es) =
     (n = k \<and> lockstep (if length b = k then Reply else Ended) es)"
| "lockstep Reply (Write b k # es) =
     (length b = 4 \<and> lockstep (if k = 4 then ReplyPayload (unat (BigEndian_Uint32 b))
                                 else Ended) es)"
| "lockstep (ReplyPayload n) (Write b k # es) =
     (length b mod 2 ^ 32 = n \<and> lockstep (if k = length b then AwaitHeader else Ended) es)"
| "lockstep ph (Read n b # es) = False"
| "lockstep ph (Write b k # es) = False"
| "lockstep ph (Close # es) = (es = [])"
| "lockstep ph (SetDeadline t # es) = lockstep ph es"
| "lockstep ph (SetReadDeadline t # es) = lockstep ph es"
| "lockstep ph (SetWriteDeadline t # es) = lockstep ph es"

section \<open>Sample values\<close>

text \<open>A stand-in for the serializer, for running the model: it writes one byte \<open>0x61\<close> for
  each character of the \<open>ID\<close> and reads a message back with an \<open>ID\<close> of that many
  characters \<open>a\<close>; an empty payload is an error, as it is for msgpack. A nil message is
  the byte \<open>0xC0\<close>.\<close>

definition sample_ext :: ext where
  "sample_ext =
     \<lparr>msgpack_Marshal =
        (\<lambda>m. case m of None \<Rightarrow> Inr [0xC0]
                        | Some v \<Rightarrow> Inr (replicate (length (ID v)) 0x61)),
      msgpack_Unmarshal =
        (\<lambda>b. if b = [] then Inl io_EOF
              else Inr \<lparr>ID = replicate (length b) CHR ''a'', Type = ''health_check'',
                         Timestamp = 0, Data = None\<rparr>),
      time_Format = (\<lambda>t. ''aa'')\<rparr>"

definition sample_rt :: rt where
  "sample_rt = \<lparr>clock = (\<lambda>n. int n), ticks = 0, cancel_at = None, polls = 0, logs = []\<rparr>"

definition sample_conn :: "byte list \<Rightarrow> conn" where
  "sample_conn b =
     \<lparr>inbound = b, in_err = io_EOF, out_room = None, out_err = ErrNew ''broken pipe'',
      io = []\<rparr>"

definition sample_config :: "bool \<Rightarrow> Config" where
  "sample_config debug =
     \<lparr>SocketPath = ''/tmp/litebase.sock'', PipeName = [], cfg_Logger = Some (Logger ''info''),
      DebugMode = debug, ReadTimeout = 0, WriteTimeout = 0\<rparr>"

definition sample_server :: "bool \<Rightarrow> Server" where
  "sample_server debug =
     registerDefaultHandlers sample_ext
       \<lparr>config = (sample_config debug)\<lparr>ReadTimeout := 30 * time_Second,
                                        WriteTimeout := 30 * time_Second\<rparr>,
        listener = None, logger = Logger ''info'', handlers = Map.empty\<rparr>"

definition sample_request :: "string \<Rightarrow> MessageType \<Rightarrow> Message" where
  "sample_request i t = \<lparr>ID = i, Type = t, Timestamp = 0, Data = None\<rparr>"

text \<open>An operating system on which removing \<open>locked\<close>, creating the directory
  \<open>nodir\<close> and listening at \<open>busy\<close> fail; no other file exists.\<close>

definition sample_sys :: "string \<Rightarrow> string \<Rightarrow> string \<Rightarrow> sys" where
  "sample_sys locked nodir busy =
     \<lparr>GOOS = ''linux'', os_TempDir = ''/tmp'',
      filepath_Join = (\<lambda>d f. d @ ''/'' @ f),
      filepath_Dir = (\<lambda>f. ''/tmp''),
      os_Remove = (\<lambda>f. if f = locked then Some (ErrNew ''operation not permitted'')
                          else Some (ErrNew ''no such file or directory'')),
      os_IsNotExist = (\<lambda>e. e = ErrNew ''no such file or directory''),
      os_MkdirAll = (\<lambda>d. if d = nodir then Some (ErrNew ''permission denied'') else None),
      net_Listen = (\<lambda>n a. if a = busy then Inl (ErrNew ''address already in use'')
                            else Inr \<lparr>network = n, address = a, unlinkOnClose = False\<rparr>),
      listener_Close = (\<lambda>l. None)\<rparr>"

definition sample_proc :: "conn list \<Rightarrow> proc" where
  "sample_proc cs = \<lparr>calls = [], sessions = cs, run = sample_rt\<rparr>"

definition sample_listener :: Listener where
  "sample_listener =
     \<lparr>network = ''unix'', address = ''/tmp/litebase.sock'', unlinkOnClose = True\<rparr>"

definition sample_backend :: server_Server where
  "sample_backend =
     \<lparr>sv_config = \<lparr>sc_SocketPath = ''/tmp/litebase.sock'', sc_PipeName = [], Port = 0,
                    sc_Logger = Some (Logger ''info''), sc_DebugMode = True\<rparr>,
      ipc = (sample_server True)\<lparr>listener := Some sample_listener\<rparr>,
      sv_logger = Logger ''info''\<rparr>"

section \<open>Properties\<close>

subsection \<open>Framing\<close>

lemma written_append: "written (es @ fs) = written es @ written fs"
  by (induction es rule: written.induct) simp_all

lemma BigEndian_roundtrip: "BigEndian_Uint32 (BigEndian_PutUint32 v) = v"
  unfolding BigEndian_PutUint32_def BigEndian_Uint32.simps
  apply (rule bit_word_eqI)
  subgoal for n
    by (cases "n < 8"; cases "n < 16"; cases "n < 24") (auto simp: bit_simps)
  done

lemma length_PutUint32: "length (BigEndian_PutUint32 v) = 4"
  by (simp add: BigEndian_PutUint32_def)

lemma conn_Write_ok:
  "conn_Write b c = (None, c1) \<Longrightarrow> written (io c1) = written (io c) @ b"
  by (auto simp: conn_Write_def conn_call_def written_append split: option.splits if_splits)

lemma writeMessage_written:
  assumes "writeMessage x s m c r = (None, c1, r1)" and "msgpack_Marshal x m = Inr data"
  shows "written (io c1) = written (io c) @ BigEndian_PutUint32 (of_nat (length data)) @ data"
proof -
  define c0 where
    "c0 = (if \<not> DebugMode (config s)
           then conn_call (SetWriteDeadline (time_Add (fst (time_Now r)) (WriteTimeout (config s)))) c
           else c)"
  have c0: "written (io c0) = written (io c)"
    by (simp add: c0_def conn_call_def written_append)
  from assms obtain c2 where
    h: "conn_Write (BigEndian_PutUint32 (of_nat (length data))) c0 = (None, c2)" and
    b: "conn_Write data c2 = (None, c1)"
    by (auto simp: writeMessage_def c0_def split: prod.splits option.splits if_splits)
  from conn_Write_ok [OF h] conn_Write_ok [OF b] c0 show ?thesis
    by simp
qed

lemma io_ReadFull_prefix:
  "inbound c = b @ rest \<Longrightarrow>
   io_ReadFull (length b) c =
     (Inr b, conn_call (Read (length b) b) (c\<lparr>inbound := rest\<rparr>))"
  by (simp add: io_ReadFull_def)

lemma readMessage_frame:
  assumes "inbound c = BigEndian_PutUint32 (of_nat (length data)) @ data @ rest"
    and "length data < 2 ^ 32" and "msgpack_Unmarshal x data = Inr m"
  shows "\<exists>c1 r1. readMessage x s c r = (Inr m, c1, r1) \<and> inbound c1 = rest"
proof -
  define c0 where
    "c0 = (if \<not> DebugMode (config s)
           then conn_call (SetReadDeadline (time_Add (fst (time_Now r)) (ReadTimeout (config s)))) c
           else c)"
  let ?h = "BigEndian_PutUint32 (of_nat (length data))"
  have c0: "inbound c0 = ?h @ (data @ rest)"
    using assms(1) by (simp add: c0_def conn_call_def)
  have h: "io_ReadFull 4 c0 = (Inr ?h, conn_call (Read 4 ?h) (c0\<lparr>inbound := data @ rest\<rparr>))"
    using io_ReadFull_prefix [OF c0] by (simp add: length_PutUint32)
  have n: "unat (BigEndian_Uint32 ?h) = length data"
    using assms(2) by (simp add: BigEndian_roundtrip unat_of_nat)
  have b: "io_ReadFull (length data) (conn_call (Read 4 ?h) (c0\<lparr>inbound := data @ rest\<rparr>)) =
      (Inr data, conn_call (Read (length data) data)
         ((conn_call (Read 4 ?h) (c0\<lparr>inbound := data @ rest\<rparr>))\<lparr>inbound := rest\<rparr>))"
    by (rule io_ReadFull_prefix) (simp add: conn_call_def)
  show ?thesis
    using h b n assms(3)
    by (auto simp: readMessage_def c0_def conn_call_def time_Now_def split: prod.splits)
qed

lemmas sample_defs = sample_ext_def sample_server_def sample_config_def sample_conn_def
  sample_rt_def sample_request_def registerDefaultHandlers_def

lemmas io_defs = writeMessage_def readMessage_def conn_Write_def io_ReadFull_def conn_call_def
  BigEndian_PutUint32_def time_Now_def time_Add_def

text \<open>Claim C1, as the code has it. Let the serializer turn the message \<open>m\<close> into
  fewer than \<open>2 ^ 32\<close> bytes and read these bytes back as \<open>m\<close>. When
  \<open>writeMessage\<close> has written \<open>m\<close> without error and a peer receives the bytes it
  wrote (and possibly more after them), \<open>readMessage\<close> returns \<open>m\<close>, with its id, type,
  timestamp and data, and leaves exactly the bytes that follow the frame.\<close>

theorem C1_frame_roundtrip:
  assumes "msgpack_Marshal x (Some m) = Inr data"
    and "msgpack_Unmarshal x data = Inr m"
    and "length data < 2 ^ 32"
    and "writeMessage x s (Some m) c r = (None, c1, r1)"
    and "inbound c2 = drop (length (written (io c))) (written (io c1)) @ rest"
  shows "\<exists>c3 r3. readMessage x s2 c2 r2 = (Inr m, c3, r3) \<and> inbound c3 = rest"
proof -
  from writeMessage_written [OF assms(4) assms(1)] assms(5)
  have "inbound c2 = BigEndian_PutUint32 (of_nat (length data)) @ data @ rest"
    by simp
  from readMessage_frame [OF this assms(3) assms(2)] show ?thesis .
qed


text \<open>The theorem at a message of one payload byte, followed on the wire by a byte \<open>7\<close>.\<close>

theorem C1_frame_roundtrip_witness:
  "msgpack_Marshal sample_ext (Some (sample_request ''a'' ''health_check'')) = Inr [0x61] \<and>
   msgpack_Unmarshal sample_ext [0x61] = Inr (sample_request ''a'' ''health_check'') \<and>
   fst (writeMessage sample_ext (sample_server False) (Some (sample_request ''a'' ''health_check''))
          (sample_conn []) sample_rt) = None \<and>
   written (io (fst (snd (writeMessage sample_ext (sample_server False)
          (Some (sample_request ''a'' ''health_check'')) (sample_conn []) sample_rt)))) =
     [0, 0, 0, 1, 0x61] \<and>
   (\<exists>c3 r3. readMessage sample_ext (sample_server True) (sample_conn [0, 0, 0, 1, 0x61, 7])
        sample_rt = (Inr (sample_request ''a'' ''health_check''), c3, r3) \<and> inbound c3 = [7])"
proof -
  let ?m = "sample_request ''a'' ''health_check''"
  let ?w = "writeMessage sample_ext (sample_server False) (Some ?m) (sample_conn []) sample_rt"
  have a: "msgpack_Marshal sample_ext (Some ?m) = Inr [0x61]"
    by (simp add: sample_defs)
  have b: "msgpack_Unmarshal sample_ext [0x61] = Inr ?m"
    by (simp add: sample_defs)
  have l: "length [0x61 :: byte] < 2 ^ 32"
    by simp
  have w: "?w = (None, fst (snd ?w), snd (snd ?w))"
    by (simp add: sample_defs io_defs)
  have o: "written (io (fst (snd ?w))) = [0, 0, 0, 1, 0x61]"
    by (simp add: sample_defs io_defs)
  have i: "inbound (sample_conn [0, 0, 0, 1, 0x61, 7]) =
      drop (length (written (io (sample_conn [])))) (written (io (fst (snd ?w)))) @ [7]"
    by (simp add: o) (simp add: sample_conn_def)
  from C1_frame_roundtrip [OF a b l w i, of "sample_server True" sample_rt] a b w o
  show ?thesis
    by (metis fst_conv)
qed

text \<open>Claim C1 as stated fails for a message whose payload has \<open>2 ^ 32\<close> bytes: the
  serializer reads the payload back as the message and the write succeeds, but the length
  prefix is \<open>uint32(len(data)) = 0\<close>, so \<open>readMessage\<close> hands an empty payload to the
  deserializer and returns its error instead of the message.\<close>

theorem C1_long_payload_counterexample:
  "msgpack_Marshal sample_ext (Some (sample_request (replicate (2 ^ 32) CHR ''a'') ''health_check''))
     = Inr (replicate (2 ^ 32) 0x61) \<and>
   msgpack_Unmarshal sample_ext (replicate (2 ^ 32) 0x61)
     = Inr (sample_request (replicate (2 ^ 32) CHR ''a'') ''health_check'') \<and>
   written (io (fst (snd (writeMessage sample_ext (sample_server True)
       (Some (sample_request (replicate (2 ^ 32) CHR ''a'') ''health_check''))
       (sample_conn []) sample_rt)))) = [0, 0, 0, 0] @ replicate (2 ^ 32) 0x61 \<and>
   fst (writeMessage sample_ext (sample_server True)
       (Some (sample_request (replicate (2 ^ 32) CHR ''a'') ''health_check''))
       (sample_conn []) sample_rt) = None \<and>
   fst (readMessage sample_ext (sample_server True)
          (sample_conn ([0, 0, 0, 0] @ replicate (2 ^ 32) 0x61)) sample_rt)
     = Inl (ErrWrap ''failed to unmarshal message: '' io_EOF)"
  by (simp add: sample_defs io_defs)


subsection \<open>Timeouts and deadlines\<close>

lemma io_ReadFull_deadlines:
  "io_ReadFull n c = (res, c1) \<Longrightarrow> filter is_deadline (io c1) = filter is_deadline (io c)"
  by (auto simp: io_ReadFull_def conn_call_def split: if_splits)

lemma conn_Write_deadlines:
  "conn_Write b c = (res, c1) \<Longrightarrow> filter is_deadline (io c1) = filter is_deadline (io c)"
  by (auto simp: conn_Write_def conn_call_def split: option.splits if_splits)

lemma readMessage_deadlines:
  assumes "readMessage x s c r = (res, c1, r1)"
  shows "filter is_deadline (io c1) =
           filter is_deadline (io c) @
             (if DebugMode (config s) then []
              else [SetReadDeadline (time_Add (clock r (ticks r)) (ReadTimeout (config s)))])"
  using assms
  by (auto simp: readMessage_def conn_call_def time_Now_def
      split: prod.splits sum.splits if_splits
      dest!: io_ReadFull_deadlines)

lemma writeMessage_deadlines:
  assumes "writeMessage x s m c r = (res, c1, r1)"
  shows "filter is_deadline (io c1) =
           filter is_deadline (io c) @
             (if DebugMode (config s) then []
              else [SetWriteDeadline (time_Add (clock r (ticks r)) (WriteTimeout (config s)))])"
  using assms
  by (auto simp: writeMessage_def conn_call_def time_Now_def
      split: prod.splits sum.splits option.splits if_splits
      dest!: conn_Write_deadlines)

lemma loop_debug_deadlines:
  "DebugMode (config s) \<Longrightarrow>
   filter is_deadline (io (fst (handleConnection_loop x s c r))) = filter is_deadline (io c)"
proof (induction x s c r rule: handleConnection_loop.induct)
  case (1 x s c r)
  show ?case
    apply (subst handleConnection_loop.simps)
    using 1
    apply (auto split: prod.splits sum.splits option.splits bool.splits
        dest!: readMessage_deadlines writeMessage_deadlines)
    done
qed


text \<open>Claim C10. \<open>ipc.New\<close> replaces a zero \<open>ReadTimeout\<close> or \<open>WriteTimeout\<close> by 30
  seconds and keeps any other value and \<open>DebugMode\<close>. Of the deadline calls on a
  connection, \<open>readMessage\<close> adds one \<open>SetReadDeadline\<close> at now plus \<open>ReadTimeout\<close> and
  \<open>writeMessage\<close> one \<open>SetWriteDeadline\<close> at now plus \<open>WriteTimeout\<close> when \<open>DebugMode\<close> is
  false, and neither adds any when it is true; in \<open>DebugMode\<close> the whole service of a
  connection, from the goroutine of \<open>Start\<close> to the close, sets no deadline.\<close>

theorem C10_timeouts_and_deadlines:
  "(ipc_New x cfg = Inr s0 \<longrightarrow>
      ReadTimeout (config s0) = (if ReadTimeout cfg = 0 then 30 * time_Second else ReadTimeout cfg) \<and>
      WriteTimeout (config s0) = (if WriteTimeout cfg = 0 then 30 * time_Second else WriteTimeout cfg) \<and>
      DebugMode (config s0) = DebugMode cfg) \<and>
   filter is_deadline (io (fst (snd (readMessage x s c r)))) =
     filter is_deadline (io c) @
       (if DebugMode (config s) then []
        else [SetReadDeadline (time_Add (clock r (ticks r)) (ReadTimeout (config s)))]) \<and>
   filter is_deadline (io (fst (snd (writeMessage x s m c r)))) =
     filter is_deadline (io c) @
       (if DebugMode (config s) then []
        else [SetWriteDeadline (time_Add (clock r (ticks r)) (WriteTimeout (config s)))]) \<and>
   (DebugMode (config s) \<longrightarrow>
      filter is_deadline (io (fst (Start_serve x s c r))) = filter is_deadline (io c))"
proof (intro conjI impI)
  assume "ipc_New x cfg = Inr s0"
  then have s0: "config s0 =
      (let cfg1 = (if ReadTimeout cfg = 0 then cfg\<lparr>ReadTimeout := 30 * time_Second\<rparr> else cfg)
       in if WriteTimeout cfg1 = 0 then cfg1\<lparr>WriteTimeout := 30 * time_Second\<rparr> else cfg1)"
    by (auto simp: ipc_New_def registerDefaultHandlers_def Let_def split: option.splits)
  show "ReadTimeout (config s0) = (if ReadTimeout cfg = 0 then 30 * time_Second else ReadTimeout cfg)"
    by (simp add: s0 Let_def)
  show "WriteTimeout (config s0) = (if WriteTimeout cfg = 0 then 30 * time_Second else WriteTimeout cfg)"
    by (simp add: s0 Let_def)
  show "DebugMode (config s0) = DebugMode cfg"
    by (simp add: s0 Let_def)
next
  show "filter is_deadline (io (fst (snd (readMessage x s c r)))) =
     filter is_deadline (io c) @
       (if DebugMode (config s) then []
        else [SetReadDeadline (time_Add (clock r (ticks r)) (ReadTimeout (config s)))])"
    by (rule readMessage_deadlines [of x s c r "fst (readMessage x s c r)"
          _ "snd (snd (readMessage x s c r))"]) simp
next
  show "filter is_deadline (io (fst (snd (writeMessage x s m c r)))) =
     filter is_deadline (io c) @
       (if DebugMode (config s) then []
        else [SetWriteDeadline (time_Add (clock r (ticks r)) (WriteTimeout (config s)))])"
    by (rule writeMessage_deadlines [of x s m c r "fst (writeMessage x s m c r)"
          _ "snd (snd (writeMessage x s m c r))"]) simp
next
  assume d: "DebugMode (config s)"
  have "filter is_deadline (io (fst (handleConnection x s c r))) = filter is_deadline (io c)"
    using loop_debug_deadlines [OF d, of x c "logger_log LDebug ''New connection established'' r"]
    by (simp add: handleConnection_def conn_call_def case_prod_beta)
  with d show "filter is_deadline (io (fst (Start_serve x s c r))) = filter is_deadline (io c)"
    by (simp add: Start_serve_def)
qed

text \<open>The theorem at the sample configuration, and at a debug-mode server that is sent
  one frame.\<close>

theorem C10_timeouts_and_deadlines_witness:
  "ipc_New sample_ext (sample_config False) = Inr (sample_server False) \<and>
   ReadTimeout (config (sample_server False)) = 30000000000 \<and>
   WriteTimeout (config (sample_server False)) = 30000000000 \<and>
   DebugMode (config (sample_server True)) \<and>
   filter is_deadline (io (fst (Start_serve sample_ext (sample_server True)
       (sample_conn [0, 0, 0, 1, 0x61]) sample_rt))) = []"
proof -
  have n: "ipc_New sample_ext (sample_config False) = Inr (sample_server False)"
    by (simp add: ipc_New_def sample_server_def sample_config_def)
  have d: "DebugMode (config (sample_server True))"
    by (simp add: sample_defs)
  from C10_timeouts_and_deadlines [where x = sample_ext and cfg = "sample_config False"
      and ?s0.0 = "sample_server False" and s = "sample_server True"
      and c = "sample_conn [0, 0, 0, 1, 0x61]" and r = sample_rt]
    n d
  show ?thesis
    by (simp add: sample_config_def sample_conn_def time_Second_def)
qed


subsection \<open>Construction\<close>

text \<open>Claim C9. \<open>ipc.New\<close> and \<open>server.New\<close> return an error exactly when the
  configuration's \<open>Logger\<close> is nil, and a server exactly when it is not.\<close>

theorem C9_New_requires_logger:
  "((\<exists>e. ipc_New x cfg = Inl e) = (cfg_Logger cfg = None)) \<and>
   ((\<exists>s. ipc_New x cfg = Inr s) = (cfg_Logger cfg \<noteq> None)) \<and>
   ((\<exists>e. server_New x scfg = Inl e) = (sc_Logger scfg = None)) \<and>
   ((\<exists>s. server_New x scfg = Inr s) = (sc_Logger scfg \<noteq> None))"
  by (auto simp: ipc_New_def server_New_def Let_def split: option.splits sum.splits)

subsection \<open>Responses\<close>

lemma NewMessage_fields:
  "NewMessage x t d r = (m, r1) \<Longrightarrow> Type m = t \<and> Data m = d"
  by (auto simp: NewMessage_def generateID_def time_Now_def split: prod.splits)

lemma handlers_ipc_New:
  "ipc_New x cfg = Inr s \<Longrightarrow> handlers s = [MessageTypeHealthCheck \<mapsto> handleHealthCheck x]"
  by (auto simp: ipc_New_def registerDefaultHandlers_def Let_def split: option.splits)

lemma sample_server_New: "ipc_New sample_ext (sample_config d) = Inr (sample_server d)"
  by (simp add: ipc_New_def sample_server_def sample_config_def)

text \<open>Claim C2, at the code. For a \<open>health_check\<close> message the server built by \<open>ipc.New\<close>
  makes a \<open>HealthCheckResponse\<close> with status \<open>healthy\<close> and version \<open>1.0.0\<close>, and
  returns, without error, the \<open>Message\<close> embedded in it: a message of type
  \<open>health_response\<close> whose \<open>Data\<close> is nil. Status and version are fields of the response
  that is left behind, not of the message that is written.\<close>

theorem C2_health_check_reply:
  assumes "ipc_New x cfg = Inr s" and "Type msg = MessageTypeHealthCheck"
  shows "\<exists>resp r1.
           NewHealthCheckResponse x ''healthy'' ''1.0.0''
             (logger_log LDebug ''Health check request received'' r) = (resp, r1) \<and>
           Status resp = ''healthy'' \<and> Version resp = ''1.0.0'' \<and>
           handleMessage x s msg r = ((Some (hc_Message resp), None), r1) \<and>
           Type (hc_Message resp) = MessageTypeHealthResponse \<and>
           Data (hc_Message resp) = None"
  using assms
  by (auto simp: handleMessage_def handlers_ipc_New handleHealthCheck_def
      NewHealthCheckResponse_def time_Now_def split: prod.splits dest: NewMessage_fields)

text \<open>The theorem at the sample server and a \<open>health_check\<close> request.\<close>

theorem C2_health_check_reply_witness:
  "ipc_New sample_ext (sample_config True) = Inr (sample_server True) \<and>
   Type (sample_request ''a'' ''health_check'') = MessageTypeHealthCheck \<and>
   (\<exists>resp r1.
      NewHealthCheckResponse sample_ext ''healthy'' ''1.0.0''
        (logger_log LDebug ''Health check request received'' sample_rt) = (resp, r1) \<and>
      Status resp = ''healthy'' \<and> Version resp = ''1.0.0'' \<and>
      handleMessage sample_ext (sample_server True) (sample_request ''a'' ''health_check'')
        sample_rt = ((Some (hc_Message resp), None), r1) \<and>
      Type (hc_Message resp) = MessageTypeHealthResponse \<and> Data (hc_Message resp) = None)"
proof -
  have n: "ipc_New sample_ext (sample_config True) = Inr (sample_server True)"
    by (rule sample_server_New)
  have t: "Type (sample_request ''a'' ''health_check'') = MessageTypeHealthCheck"
    by (simp add: sample_request_def MessageTypeHealthCheck_def)
  show ?thesis
    by (rule conjI [OF n conjI [OF t C2_health_check_reply [OF n t]]])
qed

text \<open>Claim C3, at the code. For a message whose type has no handler, \<open>handleMessage\<close>
  makes an \<open>ErrorResponse\<close> with code 400 and an error text that ends in the type, and
  returns, without error, the \<open>Message\<close> embedded in it: a message of type \<open>error\<close>
  whose \<open>Data\<close> is nil. Code and error text are fields of the response that is left
  behind, not of the message that is written.\<close>

theorem C3_unknown_type_reply:
  assumes "handlers s (Type msg) = None"
  shows "\<exists>resp r1.
           NewErrorResponse x (ErrNew (''unknown message type: '' @ Type msg)) 400
             ''Unsupported message type'' r = (resp, r1) \<and>
           Code resp = 400 \<and> Error resp = ''unknown message type: '' @ Type msg \<and>
           handleMessage x s msg r = ((Some (er_Message resp), None), r1) \<and>
           Type (er_Message resp) = MessageTypeError \<and>
           Data (er_Message resp) = None"
  using assms
  by (auto simp: handleMessage_def NewErrorResponse_def split: prod.splits
      dest: NewMessage_fields)

text \<open>The theorem at the sample server and a request of type \<open>bogus_type\<close>.\<close>

theorem C3_unknown_type_reply_witness:
  "handlers (sample_server True) (Type (sample_request ''a'' ''bogus_type'')) = None \<and>
   (\<exists>resp r1.
      NewErrorResponse sample_ext
        (ErrNew (''unknown message type: '' @ Type (sample_request ''a'' ''bogus_type''))) 400
        ''Unsupported message type'' sample_rt = (resp, r1) \<and>
      Code resp = 400 \<and>
      Error resp = ''unknown message type: '' @ Type (sample_request ''a'' ''bogus_type'') \<and>
      handleMessage sample_ext (sample_server True) (sample_request ''a'' ''bogus_type'')
        sample_rt = ((Some (er_Message resp), None), r1) \<and>
      Type (er_Message resp) = MessageTypeError \<and> Data (er_Message resp) = None)"
proof -
  have h: "handlers (sample_server True) (Type (sample_request ''a'' ''bogus_type'')) = None"
    by (simp add: sample_server_def sample_request_def registerDefaultHandlers_def
        MessageTypeHealthCheck_def)
  show ?thesis
    by (rule conjI [OF h C3_unknown_type_reply [OF h]])
qed

subsection \<open>Lockstep and order on one connection\<close>


lemma lockstep_deadline: "is_deadline d \<Longrightarrow> lockstep ph (d # es) = lockstep ph es"
  by (cases d; cases ph) simp_all

lemma io_ReadFull_io:
  "io_ReadFull n c = (res, c1) \<Longrightarrow>
   \<exists>b. io c1 = io c @ [Read n b] \<and> (case res of Inl e \<Rightarrow> length b < n | Inr d \<Rightarrow> d = b \<and> length b = n)"
  by (auto simp: io_ReadFull_def conn_call_def split: if_splits)

lemma conn_Write_io:
  "conn_Write b c = (res, c1) \<Longrightarrow>
   \<exists>k. io c1 = io c @ [Write b k] \<and> (case res of Some e \<Rightarrow> k < length b | None \<Rightarrow> k = length b)"
  by (auto simp: conn_Write_def conn_call_def split: option.splits if_splits)


lemma lockstep_deadlines:
  "list_all is_deadline dl \<Longrightarrow> lockstep ph (dl @ es) = lockstep ph es"
  by (induction dl) (simp_all add: lockstep_deadline)

lemma readMessage_lockstep:
  assumes "readMessage x s c r = (res, c1, r1)"
  shows "\<exists>es. io c1 = io c @ es \<and>
           (case res of
              Inl e \<Rightarrow> lockstep AwaitHeader (es @ [Close])
            | Inr m \<Rightarrow> (\<forall>fs. lockstep AwaitHeader (es @ fs) = lockstep Reply fs))"
proof -
  define c0 where
    "c0 = (if \<not> DebugMode (config s)
           then conn_call (SetReadDeadline (time_Add (fst (time_Now r)) (ReadTimeout (config s)))) c
           else c)"
  define r0 where "r0 = (if \<not> DebugMode (config s) then snd (time_Now r) else r)"
  have pre: "(if \<not> DebugMode (config s)
              then (case time_Now r of (t, r1) \<Rightarrow>
                      (conn_call (SetReadDeadline (time_Add t (ReadTimeout (config s)))) c, r1))
              else (c, r)) = (c0, r0)"
    by (simp add: c0_def r0_def case_prod_beta)
  have rm: "readMessage x s c r =
      (case io_ReadFull 4 c0 of
         (Inl e, c2) \<Rightarrow> (Inl (ErrWrap ''failed to read message length: '' e), c2, r0)
       | (Inr lengthBytes, c2) \<Rightarrow>
           (case io_ReadFull (unat (BigEndian_Uint32 lengthBytes)) c2 of
              (Inl e, c3) \<Rightarrow> (Inl (ErrWrap ''failed to read message data: '' e), c3, r0)
            | (Inr data, c3) \<Rightarrow>
                (case msgpack_Unmarshal x data of
                   Inl e \<Rightarrow> (Inl (ErrWrap ''failed to unmarshal message: '' e), c3, r0)
                 | Inr msg \<Rightarrow> (Inr msg, c3, r0))))"
    unfolding readMessage_def pre by simp
  obtain dl where dl: "io c0 = io c @ dl" "list_all is_deadline dl"
    by (cases "DebugMode (config s)") (simp_all add: c0_def conn_call_def)
  obtain hres c2 where h: "io_ReadFull 4 c0 = (hres, c2)"
    by (cases "io_ReadFull 4 c0")
  from io_ReadFull_io [OF h] obtain hb where
    hb: "io c2 = io c0 @ [Read 4 hb]"
      "case hres of Inl e \<Rightarrow> length hb < 4 | Inr d \<Rightarrow> d = hb \<and> length hb = 4"
    by blast
  show ?thesis
  proof (cases hres)
    case (Inl e)
    with rm assms h have "c1 = c2" and res: "res = Inl (ErrWrap ''failed to read message length: '' e)"
      by simp_all
    with hb dl Inl have "io c1 = io c @ (dl @ [Read 4 hb])" "length hb < 4"
      by simp_all
    then show ?thesis
      using dl(2) res by (auto simp: lockstep_deadlines)
  next
    case (Inr lengthBytes)
    with hb have l: "lengthBytes = hb" "length hb = 4"
      by auto
    let ?n = "unat (BigEndian_Uint32 hb)"
    obtain bres c3 where b: "io_ReadFull ?n c2 = (bres, c3)"
      by (cases "io_ReadFull ?n c2")
    from io_ReadFull_io [OF b] obtain bb where
      bb: "io c3 = io c2 @ [Read ?n bb]"
        "case bres of Inl e \<Rightarrow> length bb < ?n | Inr d \<Rightarrow> d = bb \<and> length bb = ?n"
      by blast
    from rm assms h Inr l b have c1: "c1 = c3"
      by (auto split: sum.splits)
    have io: "io c1 = io c @ (dl @ [Read 4 hb, Read ?n bb])"
      using c1 bb(1) hb(1) dl(1) by simp
    have ls: "lockstep AwaitHeader ((dl @ [Read 4 hb, Read ?n bb]) @ fs) =
        lockstep (if length bb = ?n then Reply else Ended) fs" for fs
      using dl(2) l(2) by (simp add: lockstep_deadlines)
    show ?thesis
    proof (cases res)
      case (Inl e)
      have "lockstep (if length bb = ?n then Reply else Ended) [Close]"
        by simp
      with io ls [of "[Close]"] Inl show ?thesis
        by auto
    next
      case (Inr m)
      with rm assms h \<open>hres = Inr lengthBytes\<close> l b have "\<exists>d. bres = Inr d"
        by (auto split: sum.splits)
      with bb(2) have "length bb = ?n"
        by auto
      with io ls Inr show ?thesis
        by auto
    qed
  qed
qed


lemma writeMessage_lockstep:
  assumes "writeMessage x s m c r = (res, c1, r1)"
  shows "\<exists>es. io c1 = io c @ es \<and>
           (case res of
              Some e \<Rightarrow> lockstep Reply (es @ [Close])
            | None \<Rightarrow> (\<forall>fs. lockstep Reply (es @ fs) = lockstep AwaitHeader fs))"
proof -
  define c0 where
    "c0 = (if \<not> DebugMode (config s)
           then conn_call (SetWriteDeadline (time_Add (fst (time_Now r)) (WriteTimeout (config s)))) c
           else c)"
  define r0 where "r0 = (if \<not> DebugMode (config s) then snd (time_Now r) else r)"
  have pre: "(if \<not> DebugMode (config s)
              then (case time_Now r of (t, r1) \<Rightarrow>
                      (conn_call (SetWriteDeadline (time_Add t (WriteTimeout (config s)))) c, r1))
              else (c, r)) = (c0, r0)"
    by (simp add: c0_def r0_def case_prod_beta)
  have wm: "writeMessage x s m c r =
      (case msgpack_Marshal x m of
         Inl e \<Rightarrow> (Some (ErrWrap ''failed to marshal message: '' e), c0, r0)
       | Inr data \<Rightarrow>
           (case conn_Write (BigEndian_PutUint32 (of_nat (length data))) c0 of
              (Some e, c2) \<Rightarrow> (Some (ErrWrap ''failed to write message length: '' e), c2, r0)
            | (None, c2) \<Rightarrow>
                (case conn_Write data c2 of
                   (Some e, c3) \<Rightarrow> (Some (ErrWrap ''failed to write message data: '' e), c3, r0)
                 | (None, c3) \<Rightarrow> (None, c3, r0))))"
    unfolding writeMessage_def pre by simp
  obtain dl where dl: "io c0 = io c @ dl" "list_all is_deadline dl"
    by (cases "DebugMode (config s)") (simp_all add: c0_def conn_call_def)
  show ?thesis
  proof (cases "msgpack_Marshal x m")
    case (Inl e)
    with wm assms have "c1 = c0" "res = Some (ErrWrap ''failed to marshal message: '' e)"
      by simp_all
    with dl show ?thesis
      by (auto simp: lockstep_deadlines)
  next
    case (Inr data)
    let ?h = "BigEndian_PutUint32 (of_nat (length data))"
    have n: "unat (BigEndian_Uint32 ?h) = length data mod 2 ^ 32"
      by (simp add: BigEndian_roundtrip unat_of_nat)
    obtain hres c2 where h: "conn_Write ?h c0 = (hres, c2)"
      by (cases "conn_Write ?h c0")
    from conn_Write_io [OF h] obtain k where
      k: "io c2 = io c0 @ [Write ?h k]"
        "case hres of Some e \<Rightarrow> k < length ?h | None \<Rightarrow> k = length ?h"
      by blast
    show ?thesis
    proof (cases hres)
      case (Some e)
      with wm assms Inr h have "c1 = c2" "res = Some (ErrWrap ''failed to write message length: '' e)"
        by simp_all
      moreover from Some k(2) have "k \<noteq> 4"
        by (simp add: length_PutUint32)
      ultimately show ?thesis
        using dl k(1) by (auto simp: lockstep_deadlines length_PutUint32)
    next
      case None
      with k(2) have k4: "k = 4"
        by (simp add: length_PutUint32)
      obtain bres c3 where b: "conn_Write data c2 = (bres, c3)"
        by (cases "conn_Write data c2")
      from conn_Write_io [OF b] obtain j where
        j: "io c3 = io c2 @ [Write data j]"
          "case bres of Some e \<Rightarrow> j < length data | None \<Rightarrow> j = length data"
        by blast
      from wm assms Inr h None b have c1: "c1 = c3"
        and res: "res = map_option (ErrWrap ''failed to write message data: '') bres"
        by (auto split: option.splits)
      have io: "io c1 = io c @ (dl @ [Write ?h 4, Write data j])"
        using c1 j(1) k(1) k4 dl(1) by simp
      have ls: "lockstep Reply ((dl @ [Write ?h 4, Write data j]) @ fs) =
          lockstep (if j = length data then AwaitHeader else Ended) fs" for fs
        using dl(2) by (simp add: lockstep_deadlines length_PutUint32 n)
      show ?thesis
      proof (cases bres)
        case None
        with j(2) res io ls show ?thesis
          by auto
      next
        case (Some e)
        with j(2) have "j \<noteq> length data"
          by simp
        with Some res io ls [of "[Close]"] show ?thesis
          by auto
      qed
    qed
  qed
qed

lemma loop_lockstep:
  "\<exists>es. io (fst (handleConnection_loop x s c r)) = io c @ es \<and>
         lockstep AwaitHeader (es @ [Close])"
proof (induction x s c r rule: handleConnection_loop.induct)
  case (1 x s c r)
  obtain d r1 where d: "ctx_Done r = (d, r1)"
    by (cases "ctx_Done r")
  show ?case
  proof (cases d)
    case True
    with d show ?thesis
      by (subst handleConnection_loop.simps) simp
  next
    case False
    obtain res c2 r2 where rd: "readMessage x s c r1 = (res, c2, r2)"
      by (cases "readMessage x s c r1")
    from readMessage_lockstep [OF rd] obtain es where
      es: "io c2 = io c @ es"
        "case res of Inl e \<Rightarrow> lockstep AwaitHeader (es @ [Close])
         | Inr m \<Rightarrow> (\<forall>fs. lockstep AwaitHeader (es @ fs) = lockstep Reply fs)"
      by blast
    show ?thesis
    proof (cases res)
      case (Inl e)
      with d False rd es show ?thesis
        by (subst handleConnection_loop.simps) simp
    next
      case (Inr msg)
      obtain response r3 where rp: "handleConnection_respond x s msg r2 = (response, r3)"
        by (cases "handleConnection_respond x s msg r2")
      obtain wres c3 r4 where wr: "writeMessage x s response c2 r3 = (wres, c3, r4)"
        by (cases "writeMessage x s response c2 r3")
      from writeMessage_lockstep [OF wr] obtain ws where
        ws: "io c3 = io c2 @ ws"
          "case wres of Some e \<Rightarrow> lockstep Reply (ws @ [Close])
           | None \<Rightarrow> (\<forall>fs. lockstep Reply (ws @ fs) = lockstep AwaitHeader fs)"
        by blast
      show ?thesis
      proof (cases wres)
        case (Some e)
        with d False rd Inr rp wr es ws show ?thesis
          by (subst handleConnection_loop.simps) simp
      next
        case None
        have "\<exists>fs. io (fst (handleConnection_loop x s c3 r4)) = io c3 @ fs \<and>
            lockstep AwaitHeader (fs @ [Close])"
          using False Inr None
          by (intro "1.IH" [OF d [symmetric] _ rd [symmetric] _ refl rp [symmetric]
                wr [symmetric] _ refl]) simp_all
        then obtain fs where fs: "io (fst (handleConnection_loop x s c3 r4)) = io c3 @ fs"
          "lockstep AwaitHeader (fs @ [Close])"
          by blast
        have "handleConnection_loop x s c r = handleConnection_loop x s c3 r4"
          using d False rd Inr rp wr None by (subst handleConnection_loop.simps) simp
        with fs es ws Inr None show ?thesis
          by simp
      qed
    qed
  qed
qed


lemma io_ReadFull_keeps:
  "io_ReadFull n c = (res, c1) \<Longrightarrow>
   out_room c1 = out_room c \<and> written (io c1) = written (io c)"
  by (auto simp: io_ReadFull_def conn_call_def written_append split: if_splits)

lemma readMessage_keeps:
  assumes "readMessage x s c r = (res, c1, r1)"
  shows "out_room c1 = out_room c \<and> written (io c1) = written (io c) \<and>
         cancel_at r1 = cancel_at r"
  using assms
  by (auto simp: readMessage_def conn_call_def time_Now_def written_append
      split: prod.splits sum.splits if_splits dest!: io_ReadFull_keeps)

lemma NewMessage_cancel_at:
  "NewMessage x t d r = (m, r1) \<Longrightarrow> cancel_at r1 = cancel_at r"
  by (auto simp: NewMessage_def generateID_def time_Now_def split: prod.splits)

lemma respond_cancel_at:
  assumes "ipc_New x cfg = Inr s" and "handleConnection_respond x s m r = (resp, r1)"
  shows "cancel_at r1 = cancel_at r"
proof (cases "Type m = MessageTypeHealthCheck")
  case True
  with assms show ?thesis
    by (auto simp: handleConnection_respond_def handleMessage_def handlers_ipc_New
        handleHealthCheck_def NewHealthCheckResponse_def time_Now_def logger_log_def
        split: prod.splits dest!: NewMessage_cancel_at)
next
  case False
  with assms show ?thesis
    by (auto simp: handleConnection_respond_def handleMessage_def handlers_ipc_New
        NewErrorResponse_def split: prod.splits dest!: NewMessage_cancel_at)
qed

lemma writeMessage_sends:
  assumes "msgpack_Marshal x m = Inr d" and "out_room c = None"
  shows "\<exists>c1 r1. writeMessage x s m c r = (None, c1, r1) \<and>
           written (io c1) = written (io c) @ frame x m \<and>
           inbound c1 = inbound c \<and> out_room c1 = None \<and> cancel_at r1 = cancel_at r"
  using assms
  by (auto simp: writeMessage_def conn_Write_def conn_call_def time_Now_def frame_def
      written_append length_PutUint32 split: prod.splits)


lemma readMessage_empty:
  "inbound c = [] \<Longrightarrow> \<exists>e c1 r1. readMessage x s c r = (Inl e, c1, r1)"
  by (simp add: readMessage_def io_ReadFull_def conn_call_def time_Now_def)

lemma ctx_Done_never:
  "cancel_at r = None \<Longrightarrow> \<exists>r1. ctx_Done r = (False, r1) \<and> cancel_at r1 = None"
  by (simp add: ctx_Done_def)

lemma loop_in_order:
  assumes new: "ipc_New x cfg = Inr s"
    and total: "\<forall>m. \<exists>d. msgpack_Marshal x m = Inr d"
  shows "(\<forall>q\<in>set reqs. \<exists>d. msgpack_Marshal x (Some q) = Inr d \<and> length d < 2 ^ 32 \<and>
            msgpack_Unmarshal x d = Inr q) \<Longrightarrow>
         inbound c = concat (map (\<lambda>q. frame x (Some q)) reqs) \<Longrightarrow>
         out_room c = None \<Longrightarrow> cancel_at r = None \<Longrightarrow>
         \<exists>resps. list_all2 (\<lambda>q a. \<exists>r0. a = fst (handleConnection_respond x s q r0)) reqs resps \<and>
           written (io (fst (handleConnection_loop x s c r))) =
             written (io c) @ concat (map (frame x) resps)"
proof (induction reqs arbitrary: c r)
  case Nil
  from ctx_Done_never [OF Nil(4)] obtain r1 where d: "ctx_Done r = (False, r1)"
    by blast
  from Nil(2) have "inbound c = []"
    by simp
  from readMessage_empty [OF this] obtain e c2 r2 where
    rd: "readMessage x s c r1 = (Inl e, c2, r2)"
    by blast
  from readMessage_keeps [OF rd] have "written (io c2) = written (io c)"
    by simp
  with d rd have "written (io (fst (handleConnection_loop x s c r))) = written (io c)"
    by (subst handleConnection_loop.simps) simp
  then show ?case
    by simp
next
  case (Cons q qs)
  from Cons.prems(1) obtain d where
    q: "msgpack_Marshal x (Some q) = Inr d" "length d < 2 ^ 32" "msgpack_Unmarshal x d = Inr q"
    by auto
  from ctx_Done_never [OF Cons.prems(4)] obtain r1 where
    d: "ctx_Done r = (False, r1)" and r1: "cancel_at r1 = None"
    by blast
  let ?rest = "concat (map (\<lambda>q. frame x (Some q)) qs)"
  from Cons.prems(2) q(1) have
    "inbound c = BigEndian_PutUint32 (of_nat (length d)) @ d @ ?rest"
    by (simp add: frame_def)
  from readMessage_frame [OF this q(2) q(3)] obtain c2 r2 where
    rd: "readMessage x s c r1 = (Inr q, c2, r2)" and c2: "inbound c2 = ?rest"
    by blast
  from readMessage_keeps [OF rd] Cons.prems(3) r1 have
    k2: "out_room c2 = None" "written (io c2) = written (io c)" "cancel_at r2 = None"
    by simp_all
  obtain resp r3 where rp: "handleConnection_respond x s q r2 = (resp, r3)"
    by (cases "handleConnection_respond x s q r2")
  from respond_cancel_at [OF new rp] k2(3) have r3: "cancel_at r3 = None"
    by simp
  from total obtain d' where "msgpack_Marshal x resp = Inr d'"
    by blast
  from writeMessage_sends [OF this k2(1)] obtain c3 r4 where
    wr: "writeMessage x s resp c2 r3 = (None, c3, r4)" and
    k3: "written (io c3) = written (io c2) @ frame x resp" "inbound c3 = inbound c2"
      "out_room c3 = None" "cancel_at r4 = cancel_at r3"
    by blast
  have "\<exists>resps. list_all2 (\<lambda>q a. \<exists>r0. a = fst (handleConnection_respond x s q r0)) qs resps \<and>
      written (io (fst (handleConnection_loop x s c3 r4))) =
        written (io c3) @ concat (map (frame x) resps)"
    using Cons.prems(1) c2 k3 r3 by (intro Cons.IH) simp_all
  then obtain resps where
    ih: "list_all2 (\<lambda>q a. \<exists>r0. a = fst (handleConnection_respond x s q r0)) qs resps"
      "written (io (fst (handleConnection_loop x s c3 r4))) =
         written (io c3) @ concat (map (frame x) resps)"
    by blast
  have step: "handleConnection_loop x s c r = handleConnection_loop x s c3 r4"
    using d rd rp wr by (subst handleConnection_loop.simps) simp
  have "resp = fst (handleConnection_respond x s q r2)"
    using rp by simp
  then have "list_all2 (\<lambda>q a. \<exists>r0. a = fst (handleConnection_respond x s q r0))
      (q # qs) (resp # resps)"
    using ih(1) by auto
  moreover have "written (io (fst (handleConnection_loop x s c r))) =
      written (io c) @ concat (map (frame x) (resp # resps))"
    using step ih(2) k3(1) k2(2) by simp
  ultimately show ?case
    by blast
qed

subsection \<open>Every decoded request is answered\<close>




text \<open>Claim C8. On one connection the calls made by \<open>handleConnection\<close> are in
  lockstep: a length prefix is read, then its payload, then a length prefix is written,
  then its payload, and no read comes before the write that follows the previous read is
  complete; \<open>Close\<close> is the last call. Hence, for the server built by \<open>ipc.New\<close> with a
  serializer that does not fail, when the peer sends the frames of requests
  \<open>R1..Rn\<close> (each of which the serializer reads back) and takes every byte, and the
  server is not cancelled, the bytes written are the frames of \<open>n\<close> responses, the
  \<open>i\<close>-th being the response of the dispatch step to \<open>Ri\<close>.\<close>

theorem C8_synchronous_in_order:
  "(\<exists>es. io (fst (handleConnection x s c r)) = io c @ es \<and> lockstep AwaitHeader es) \<and>
   (ipc_New x cfg = Inr s \<and> (\<forall>m. \<exists>d. msgpack_Marshal x m = Inr d) \<and>
    (\<forall>q\<in>set reqs. \<exists>d. msgpack_Marshal x (Some q) = Inr d \<and> length d < 2 ^ 32 \<and>
        msgpack_Unmarshal x d = Inr q) \<and>
    inbound c = concat (map (\<lambda>q. frame x (Some q)) reqs) \<and>
    out_room c = None \<and> cancel_at r = None \<longrightarrow>
    (\<exists>resps.
       list_all2 (\<lambda>q a. \<exists>r0. a = fst (handleConnection_respond x s q r0)) reqs resps \<and>
       written (io (fst (handleConnection x s c r))) =
         written (io c) @ concat (map (frame x) resps)))"
proof (intro conjI impI)
  let ?r = "logger_log LDebug ''New connection established'' r"
  have hc: "io (fst (handleConnection x s c r)) =
      io (fst (handleConnection_loop x s c ?r)) @ [Close]"
    by (simp add: handleConnection_def conn_call_def case_prod_beta)
  from loop_lockstep [of x s c ?r] hc
  show "\<exists>es. io (fst (handleConnection x s c r)) = io c @ es \<and> lockstep AwaitHeader es"
    by auto
next
  let ?r = "logger_log LDebug ''New connection established'' r"
  assume a: "ipc_New x cfg = Inr s \<and> (\<forall>m. \<exists>d. msgpack_Marshal x m = Inr d) \<and>
    (\<forall>q\<in>set reqs. \<exists>d. msgpack_Marshal x (Some q) = Inr d \<and> length d < 2 ^ 32 \<and>
        msgpack_Unmarshal x d = Inr q) \<and>
    inbound c = concat (map (\<lambda>q. frame x (Some q)) reqs) \<and>
    out_room c = None \<and> cancel_at r = None"
  then have r: "cancel_at ?r = None"
    by (simp add: logger_log_def)
  have hc: "written (io (fst (handleConnection x s c r))) =
      written (io (fst (handleConnection_loop x s c ?r)))"
    by (simp add: handleConnection_def conn_call_def case_prod_beta written_append)
  from a have n: "ipc_New x cfg = Inr s" and t: "\<forall>m. \<exists>d. msgpack_Marshal x m = Inr d"
    by blast+
  from a loop_in_order [OF n t, of reqs c ?r] r
  show "\<exists>resps.
       list_all2 (\<lambda>q a. \<exists>r0. a = fst (handleConnection_respond x s q r0)) reqs resps \<and>
       written (io (fst (handleConnection x s c r))) =
         written (io c) @ concat (map (frame x) resps)"
    unfolding hc by blast
qed


text \<open>The theorem at the sample server, sent two \<open>health_check\<close> frames; the bytes it
  writes are two response frames.\<close>

theorem C8_synchronous_in_order_witness:
  "(\<exists>es. io (fst (handleConnection sample_ext (sample_server True)
            (sample_conn [0, 0, 0, 1, 0x61, 0, 0, 0, 2, 0x61, 0x61]) sample_rt)) =
          io (sample_conn [0, 0, 0, 1, 0x61, 0, 0, 0, 2, 0x61, 0x61]) @ es \<and>
        lockstep AwaitHeader es) \<and>
   (\<exists>resps.
      list_all2 (\<lambda>q a. \<exists>r0. a = fst (handleConnection_respond sample_ext (sample_server True) q r0))
        [sample_request ''a'' ''health_check'', sample_request ''aa'' ''health_check''] resps \<and>
      written (io (fst (handleConnection sample_ext (sample_server True)
          (sample_conn [0, 0, 0, 1, 0x61, 0, 0, 0, 2, 0x61, 0x61]) sample_rt))) =
        written (io (sample_conn [0, 0, 0, 1, 0x61, 0, 0, 0, 2, 0x61, 0x61])) @
          concat (map (frame sample_ext) resps)) \<and>
   written (io (fst (handleConnection sample_ext (sample_server True)
       (sample_conn [0, 0, 0, 1, 0x61, 0, 0, 0, 2, 0x61, 0x61]) sample_rt))) =
     [0, 0, 0, 2, 0x61, 0x61, 0, 0, 0, 2, 0x61, 0x61]"
proof -
  let ?c = "sample_conn [0, 0, 0, 1, 0x61, 0, 0, 0, 2, 0x61, 0x61]"
  let ?reqs = "[sample_request ''a'' ''health_check'', sample_request ''aa'' ''health_check'']"
  note T = C8_synchronous_in_order [of sample_ext "sample_server True" ?c sample_rt
      "sample_config True" ?reqs]
  have m: "\<forall>m. \<exists>d. msgpack_Marshal sample_ext m = Inr d"
    by (simp add: sample_ext_def split: option.splits)
  have q: "\<forall>q\<in>set ?reqs. \<exists>d. msgpack_Marshal sample_ext (Some q) = Inr d \<and>
      length d < 2 ^ 32 \<and> msgpack_Unmarshal sample_ext d = Inr q"
    by (simp add: sample_ext_def sample_request_def)
  have i: "inbound ?c = concat (map (\<lambda>q. frame sample_ext (Some q)) ?reqs)"
    by (simp add: sample_ext_def sample_request_def sample_conn_def frame_def
        BigEndian_PutUint32_def)
  have o: "out_room ?c = None" "cancel_at sample_rt = None"
    by (simp_all add: sample_conn_def sample_rt_def)
  have run: "written (io (fst (handleConnection sample_ext (sample_server True) ?c sample_rt))) =
      [0, 0, 0, 2, 0x61, 0x61, 0, 0, 0, 2, 0x61, 0x61]"
    by (simp add: handleConnection_def handleConnection_loop.simps sample_defs io_defs
        handleConnection_respond_def handleMessage_def handleHealthCheck_def
        NewHealthCheckResponse_def NewMessage_def generateID_def ctx_Done_def logger_log_def
        MessageTypeHealthCheck_def MessageTypeHealthResponse_def time_Unix_def io_EOF_def)
  from T [THEN conjunct2, rule_format, OF conjI [OF sample_server_New conjI [OF m
      conjI [OF q conjI [OF i conjI [OF o]]]]]]
  have ord: "\<exists>resps.
      list_all2 (\<lambda>q a. \<exists>r0. a = fst (handleConnection_respond sample_ext (sample_server True) q r0))
        ?reqs resps \<and>
      written (io (fst (handleConnection sample_ext (sample_server True) ?c sample_rt))) =
        written (io ?c) @ concat (map (frame sample_ext) resps)" .
  show ?thesis
    by (rule conjI [OF T [THEN conjunct1] conjI [OF ord run]])
qed

subsection \<open>Listener construction\<close>

lemma Start_accept_calls: "calls (snd (Start_accept s evs p)) = calls p"
  by (induction s evs p rule: Start_accept.induct) (auto split: prod.splits bool.splits)

lemma Start_accept_result: "fst (Start_accept s evs p) \<noteq> Some (Some e)"
  by (induction s evs p rule: Start_accept.induct) (auto split: prod.splits bool.splits)

lemma createUnixSocketListener_path:
  assumes "path = (if SocketPath (config s) = [] then filepath_Join y (os_TempDir y) ''litebase.sock''
                   else SocketPath (config s))"
  shows "createUnixSocketListener y s p =
     (case (case os_Remove y path of
              None \<Rightarrow> None
            | Some e \<Rightarrow> if \<not> os_IsNotExist y e then Some e else None) of
        Some e \<Rightarrow> (Inl (ErrWrap ''failed to remove existing socket: '' e),
                   sys_call (Remove path) p)
      | None \<Rightarrow>
          (case os_MkdirAll y (filepath_Dir y path) of
             Some e \<Rightarrow> (Inl (ErrWrap ''failed to create socket directory: '' e),
                        sys_call (MkdirAll (filepath_Dir y path)) (sys_call (Remove path) p))
           | None \<Rightarrow>
               (case net_Listen y ''unix'' path of
                  Inl e \<Rightarrow>
                    (Inl (ErrWrap ''failed to create Unix socket listener: '' e),
                     sys_call (Listen ''unix'' path)
                       (sys_call (MkdirAll (filepath_Dir y path)) (sys_call (Remove path) p)))
                | Inr l \<Rightarrow>
                    (if network l = ''unix''
                     then (Inr (l\<lparr>unlinkOnClose := True\<rparr>),
                           sys_call (SetUnlinkOnClose True)
                             (sys_call (Listen ''unix'' path)
                                (sys_call (MkdirAll (filepath_Dir y path))
                                   (sys_call (Remove path) p))))
                     else (Inr l,
                           sys_call (Listen ''unix'' path)
                             (sys_call (MkdirAll (filepath_Dir y path))
                                (sys_call (Remove path) p)))))))"
  unfolding assms createUnixSocketListener_def Let_def ..

text \<open>Claim C7. On a system other than Windows let \<open>path\<close> be the configured socket
  path, or \<open>litebase.sock\<close> in the temporary directory when none is configured. \<open>Start\<close>
  first removes \<open>path\<close>; an error of the removal other than "does not exist" makes it
  return an error. It then creates the parent directory and listens on the unix network at
  \<open>path\<close>; an error of either makes it return an error. In each failing case the server
  is unchanged (it holds no listener), no connection is accepted, and no later call is
  made. When all succeed, the server holds the listener with unlink-on-close set, and
  \<open>Start\<close> does not return an error.\<close>

theorem C7_unix_socket_listener:
  assumes "GOOS y \<noteq> ''windows''"
    and "path = (if SocketPath (config s) = [] then filepath_Join y (os_TempDir y) ''litebase.sock''
                 else SocketPath (config s))"
    and "removed = (case os_Remove y path of None \<Rightarrow> True | Some e \<Rightarrow> os_IsNotExist y e)"
    and "Start y s accepts p = (res, s1, p1)"
  shows
    "(\<forall>e. os_Remove y path = Some e \<and> \<not> os_IsNotExist y e \<longrightarrow>
        res = Some (Some (ErrWrap ''failed to create listener: ''
                (ErrWrap ''failed to remove existing socket: '' e))) \<and>
        s1 = s \<and> sessions p1 = sessions p \<and> calls p1 = calls p @ [Remove path]) \<and>
     (\<forall>e. removed \<and> os_MkdirAll y (filepath_Dir y path) = Some e \<longrightarrow>
        res = Some (Some (ErrWrap ''failed to create listener: ''
                (ErrWrap ''failed to create socket directory: '' e))) \<and>
        s1 = s \<and> sessions p1 = sessions p \<and>
        calls p1 = calls p @ [Remove path, MkdirAll (filepath_Dir y path)]) \<and>
     (\<forall>e. removed \<and> os_MkdirAll y (filepath_Dir y path) = None \<and>
          net_Listen y ''unix'' path = Inl e \<longrightarrow>
        res = Some (Some (ErrWrap ''failed to create listener: ''
                (ErrWrap ''failed to create Unix socket listener: '' e))) \<and>
        s1 = s \<and> sessions p1 = sessions p \<and>
        calls p1 = calls p @ [Remove path, MkdirAll (filepath_Dir y path), Listen ''unix'' path]) \<and>
     (\<forall>l. removed \<and> os_MkdirAll y (filepath_Dir y path) = None \<and>
          net_Listen y ''unix'' path = Inr l \<and> network l = ''unix'' \<longrightarrow>
        (\<forall>e. res \<noteq> Some (Some e)) \<and>
        s1 = s\<lparr>listener := Some (l\<lparr>unlinkOnClose := True\<rparr>)\<rparr> \<and>
        calls p1 = calls p @ [Remove path, MkdirAll (filepath_Dir y path), Listen ''unix'' path,
                              SetUnlinkOnClose True])"
proof -
  note cu = createUnixSocketListener_path [OF assms(2), of p]
  have A: "\<forall>e. os_Remove y path = Some e \<and> \<not> os_IsNotExist y e \<longrightarrow>
        res = Some (Some (ErrWrap ''failed to create listener: ''
                (ErrWrap ''failed to remove existing socket: '' e))) \<and>
        s1 = s \<and> sessions p1 = sessions p \<and> calls p1 = calls p @ [Remove path]"
    using assms(1,4) by (auto simp: Start_def cu sys_call_def)
  have B: "\<forall>e. removed \<and> os_MkdirAll y (filepath_Dir y path) = Some e \<longrightarrow>
        res = Some (Some (ErrWrap ''failed to create listener: ''
                (ErrWrap ''failed to create socket directory: '' e))) \<and>
        s1 = s \<and> sessions p1 = sessions p \<and>
        calls p1 = calls p @ [Remove path, MkdirAll (filepath_Dir y path)]"
    using assms(1,4) unfolding assms(3)
    by (auto simp: Start_def cu sys_call_def split: option.splits)
  have C: "\<forall>e. removed \<and> os_MkdirAll y (filepath_Dir y path) = None \<and>
          net_Listen y ''unix'' path = Inl e \<longrightarrow>
        res = Some (Some (ErrWrap ''failed to create listener: ''
                (ErrWrap ''failed to create Unix socket listener: '' e))) \<and>
        s1 = s \<and> sessions p1 = sessions p \<and>
        calls p1 = calls p @ [Remove path, MkdirAll (filepath_Dir y path), Listen ''unix'' path]"
    using assms(1,4) unfolding assms(3)
    by (auto simp: Start_def cu sys_call_def split: option.splits)
  have D: "\<forall>l. removed \<and> os_MkdirAll y (filepath_Dir y path) = None \<and>
          net_Listen y ''unix'' path = Inr l \<and> network l = ''unix'' \<longrightarrow>
        (\<forall>e. res \<noteq> Some (Some e)) \<and>
        s1 = s\<lparr>listener := Some (l\<lparr>unlinkOnClose := True\<rparr>)\<rparr> \<and>
        calls p1 = calls p @ [Remove path, MkdirAll (filepath_Dir y path), Listen ''unix'' path,
                              SetUnlinkOnClose True]"
  proof (intro allI impI, elim conjE)
    fix l
    assume a: "removed" "os_MkdirAll y (filepath_Dir y path) = None"
      "net_Listen y ''unix'' path = Inr l" "network l = ''unix''"
    let ?p3 = "sys_call (SetUnlinkOnClose True) (sys_call (Listen ''unix'' path)
        (sys_call (MkdirAll (filepath_Dir y path)) (sys_call (Remove path) p)))"
    have c: "createUnixSocketListener y s p = (Inr (l\<lparr>unlinkOnClose := True\<rparr>), ?p3)"
      using a unfolding assms(3) by (auto simp: cu split: option.splits)
    let ?s1 = "s\<lparr>listener := Some (l\<lparr>unlinkOnClose := True\<rparr>)\<rparr>"
    let ?p2 = "?p3\<lparr>run := logger_log LInfo ''IPC server started'' (run ?p3)\<rparr>"
    have st: "Start y s accepts p = (fst (Start_accept ?s1 accepts ?p2), ?s1,
        snd (Start_accept ?s1 accepts ?p2))"
      using assms(1) c by (simp add: Start_def Let_def case_prod_beta)
    have r: "res = fst (Start_accept ?s1 accepts ?p2)" and s: "s1 = ?s1"
      and p: "p1 = snd (Start_accept ?s1 accepts ?p2)"
      using st assms(4) by simp_all
    show "(\<forall>e. res \<noteq> Some (Some e)) \<and>
        s1 = s\<lparr>listener := Some (l\<lparr>unlinkOnClose := True\<rparr>)\<rparr> \<and>
        calls p1 = calls p @ [Remove path, MkdirAll (filepath_Dir y path), Listen ''unix'' path,
                              SetUnlinkOnClose True]"
      unfolding r s p Start_accept_calls
      by (simp add: Start_accept_result sys_call_def)
  qed
  show ?thesis
    by (rule conjI [OF A conjI [OF B conjI [OF C D]]])
qed


lemma Start_triple:
  "Start y s a p = (fst (Start y s a p), fst (snd (Start y s a p)), snd (snd (Start y s a p)))"
  by simp

text \<open>The theorem on four systems: one where the removal is refused, one where the
  directory cannot be made, one where the address is taken, and one where all succeeds.\<close>

theorem C7_unix_socket_listener_witness:
  "fst (Start (sample_sys ''/tmp/litebase.sock'' [] []) (sample_server True)
          [Inr (sample_conn [])] (sample_proc [])) =
     Some (Some (ErrWrap ''failed to create listener: ''
       (ErrWrap ''failed to remove existing socket: '' (ErrNew ''operation not permitted'')))) \<and>
   sessions (snd (snd (Start (sample_sys ''/tmp/litebase.sock'' [] []) (sample_server True)
          [Inr (sample_conn [])] (sample_proc [])))) = [] \<and>
   fst (Start (sample_sys [] ''/tmp'' []) (sample_server True)
          [Inr (sample_conn [])] (sample_proc [])) =
     Some (Some (ErrWrap ''failed to create listener: ''
       (ErrWrap ''failed to create socket directory: '' (ErrNew ''permission denied'')))) \<and>
   fst (Start (sample_sys [] [] ''/tmp/litebase.sock'') (sample_server True)
          [Inr (sample_conn [])] (sample_proc [])) =
     Some (Some (ErrWrap ''failed to create listener: ''
       (ErrWrap ''failed to create Unix socket listener: '' (ErrNew ''address already in use'')))) \<and>
   fst (snd (Start (sample_sys [] [] ''/tmp/litebase.sock'') (sample_server True)
          [Inr (sample_conn [])] (sample_proc []))) = sample_server True \<and>
   fst (snd (Start (sample_sys [] [] []) (sample_server True)
          [Inr (sample_conn [])] (sample_proc []))) =
     (sample_server True)\<lparr>listener := Some \<lparr>network = ''unix'',
        address = ''/tmp/litebase.sock'', unlinkOnClose = True\<rparr>\<rparr> \<and>
   calls (snd (snd (Start (sample_sys [] [] []) (sample_server True)
          [Inr (sample_conn [])] (sample_proc [])))) =
     [Remove ''/tmp/litebase.sock'', MkdirAll ''/tmp'', Listen ''unix'' ''/tmp/litebase.sock'',
      SetUnlinkOnClose True]"
proof -
  have g: "GOOS (sample_sys a b c) \<noteq> ''windows''" for a b c
    by (simp add: sample_sys_def)
  have pth: "''/tmp/litebase.sock'' =
      (if SocketPath (config (sample_server True)) = []
       then filepath_Join (sample_sys a b c) (os_TempDir (sample_sys a b c)) ''litebase.sock''
       else SocketPath (config (sample_server True)))" for a b c
    by (simp add: sample_defs)
  note T = C7_unix_socket_listener [OF g pth refl Start_triple]
  have A: "fst (Start (sample_sys ''/tmp/litebase.sock'' [] []) (sample_server True)
          [Inr (sample_conn [])] (sample_proc [])) =
     Some (Some (ErrWrap ''failed to create listener: ''
       (ErrWrap ''failed to remove existing socket: '' (ErrNew ''operation not permitted'')))) \<and>
     sessions (snd (snd (Start (sample_sys ''/tmp/litebase.sock'' [] []) (sample_server True)
          [Inr (sample_conn [])] (sample_proc [])))) = []"
    using T [of "''/tmp/litebase.sock''" "[]" "[]" "[Inr (sample_conn [])]" "sample_proc []",
        THEN conjunct1, rule_format, of "ErrNew ''operation not permitted''"]
    by (simp add: sample_sys_def sample_proc_def)
  have B: "fst (Start (sample_sys [] ''/tmp'' []) (sample_server True)
          [Inr (sample_conn [])] (sample_proc [])) =
     Some (Some (ErrWrap ''failed to create listener: ''
       (ErrWrap ''failed to create socket directory: '' (ErrNew ''permission denied''))))"
    using T [of "[]" "''/tmp''" "[]" "[Inr (sample_conn [])]" "sample_proc []",
        THEN conjunct2, THEN conjunct1, rule_format, of "ErrNew ''permission denied''"]
    by (simp add: sample_sys_def sample_proc_def)
  have C: "fst (Start (sample_sys [] [] ''/tmp/litebase.sock'') (sample_server True)
          [Inr (sample_conn [])] (sample_proc [])) =
     Some (Some (ErrWrap ''failed to create listener: ''
       (ErrWrap ''failed to create Unix socket listener: '' (ErrNew ''address already in use'')))) \<and>
     fst (snd (Start (sample_sys [] [] ''/tmp/litebase.sock'') (sample_server True)
          [Inr (sample_conn [])] (sample_proc []))) = sample_server True"
    using T [of "[]" "[]" "''/tmp/litebase.sock''" "[Inr (sample_conn [])]" "sample_proc []",
        THEN conjunct2, THEN conjunct2, THEN conjunct1, rule_format,
        of "ErrNew ''address already in use''"]
    by (simp add: sample_sys_def sample_proc_def)
  have D: "fst (snd (Start (sample_sys [] [] []) (sample_server True)
          [Inr (sample_conn [])] (sample_proc []))) =
     (sample_server True)\<lparr>listener := Some \<lparr>network = ''unix'',
        address = ''/tmp/litebase.sock'', unlinkOnClose = True\<rparr>\<rparr> \<and>
     calls (snd (snd (Start (sample_sys [] [] []) (sample_server True)
          [Inr (sample_conn [])] (sample_proc [])))) =
     [Remove ''/tmp/litebase.sock'', MkdirAll ''/tmp'', Listen ''unix'' ''/tmp/litebase.sock'',
      SetUnlinkOnClose True]"
    using T [of "[]" "[]" "[]" "[Inr (sample_conn [])]" "sample_proc []",
        THEN conjunct2, THEN conjunct2, THEN conjunct2, rule_format,
        of "\<lparr>network = ''unix'', address = ''/tmp/litebase.sock'', unlinkOnClose = False\<rparr>"]
    by (simp add: sample_sys_def sample_proc_def)
  from A B C D show ?thesis
    by (intro conjI) (elim conjE, assumption)+
qed


subsection \<open>Shutdown\<close>

lemma ctx_Done_cancel: "fst (ctx_Done (ctx_cancel r))"
  by (simp add: ctx_Done_def ctx_cancel_def split: option.splits)

lemma ctx_Done_log: "fst (ctx_Done (logger_log l m r)) = fst (ctx_Done r)"
  by (simp add: ctx_Done_def logger_log_def split: option.splits)

lemma Stop_effect:
  "sessions (snd (Stop y s p)) = sessions p \<and>
   fst (ctx_Done (run (snd (Stop y s p)))) \<and>
   calls (snd (Stop y s p)) =
     calls p @ (case listener s of None \<Rightarrow> [] | Some l \<Rightarrow> [CloseListener l]) \<and>
   fst (Stop y s p) = (case listener s of None \<Rightarrow> None | Some l \<Rightarrow> listener_Close y l)"
  by (simp add: Stop_def Let_def sys_call_def ctx_Done_cancel split: option.splits)

lemma Shutdown_sessions: "sessions (snd (Shutdown y s sel p)) = sessions p"
proof (cases sel)
  case Finished
  then show ?thesis
    using Stop_effect [of y "ipc s"
        "p\<lparr>run := logger_log LInfo ''Shutting down server...'' (run p)\<rparr>"]
    by (simp add: Shutdown_def Let_def case_prod_beta split: option.splits)
next
  case (TimedOut e g)
  then show ?thesis
    using Stop_effect [of y "ipc s"
        "p\<lparr>run := logger_log LInfo ''Shutting down server...'' (run p)\<rparr>"]
    by (cases g) (simp_all add: Shutdown_def Let_def)
qed

lemma Shutdown_Finished:
  "fst (ctx_Done (run (snd (Shutdown y s Finished p)))) \<and>
   calls (snd (Shutdown y s Finished p)) =
     calls p @ (case listener (ipc s) of None \<Rightarrow> [] | Some l \<Rightarrow> [CloseListener l]) \<and>
   fst (Shutdown y s Finished p) =
     (case listener (ipc s) of
        None \<Rightarrow> None
      | Some l \<Rightarrow> map_option (ErrWrap ''failed to stop IPC server: '') (listener_Close y l))"
  using Stop_effect [of y "ipc s"
      "p\<lparr>run := logger_log LInfo ''Shutting down server...'' (run p)\<rparr>"]
  by (simp add: Shutdown_def Let_def case_prod_beta ctx_Done_log split: option.splits)

lemma Start_accept_done:
  "fst (ctx_Done (run p)) \<Longrightarrow>
   Start_accept s (Inl e # rest) p = (Some None, p\<lparr>run := snd (ctx_Done (run p))\<rparr>)"
  by (simp add: case_prod_beta split: bool.splits)

text \<open>Claim C6, as the code has it. \<open>Stop\<close> cancels the server's context and closes the
  listener when there is one, and touches no connection. \<open>Shutdown\<close> returns a time-out
  error when the context of the call is done first, without waiting for \<open>Stop\<close>; when it
  takes the result of \<open>Stop\<close> it returns the result of closing the listener, the context
  is cancelled and the listener closed, and an \<open>Accept\<close> that fails afterwards makes
  \<open>Start\<close> return nil without taking a connection. In every case the connections being
  served are neither waited for nor closed: they are the same after \<open>Shutdown\<close> as
  before.\<close>

theorem C6_shutdown_leaves_sessions:
  "sessions (snd (Shutdown y s sel p)) = sessions p \<and>
   sessions (snd (Stop y s0 p)) = sessions p \<and>
   fst (ctx_Done (run (snd (Stop y s0 p)))) \<and>
   calls (snd (Stop y s0 p)) =
     calls p @ (case listener s0 of None \<Rightarrow> [] | Some l \<Rightarrow> [CloseListener l]) \<and>
   fst (Shutdown y s (TimedOut e g) p) = Some (ErrWrap ''server shutdown timed out: '' e) \<and>
   fst (Shutdown y s Finished p) =
     (case listener (ipc s) of
        None \<Rightarrow> None
      | Some l \<Rightarrow> map_option (ErrWrap ''failed to stop IPC server: '') (listener_Close y l)) \<and>
   fst (ctx_Done (run (snd (Shutdown y s Finished p)))) \<and>
   calls (snd (Shutdown y s Finished p)) =
     calls p @ (case listener (ipc s) of None \<Rightarrow> [] | Some l \<Rightarrow> [CloseListener l]) \<and>
   fst (Start_accept s1 (Inl e1 # rest) (snd (Shutdown y s Finished p))) = Some None \<and>
   sessions (snd (Start_accept s1 (Inl e1 # rest) (snd (Shutdown y s Finished p)))) = sessions p"
proof -
  note F = Shutdown_Finished [of y s p]
  from F have d: "fst (ctx_Done (run (snd (Shutdown y s Finished p))))"
    by simp
  have t: "fst (Shutdown y s (TimedOut e g) p) = Some (ErrWrap ''server shutdown timed out: '' e)"
    by (simp add: Shutdown_def Let_def)
  show ?thesis
    using F t Stop_effect [of y s0 p] Shutdown_sessions [of y s sel p]
      Shutdown_sessions [of y s Finished p]
    by (simp only: Start_accept_done [OF d]) simp
qed

text \<open>Claim C6 as stated fails with one connection being served: \<open>Shutdown\<close> returns
  success as soon as \<open>Stop\<close> has returned, and on a time-out it returns the error,
  whether the goroutine has run or not, and in each case the connection is still in
  service and has not been closed.\<close>

theorem C6_shutdown_counterexample:
  "fst (Shutdown (sample_sys [] [] []) sample_backend Finished
         (sample_proc [sample_conn [0, 0, 0, 1, 0x61]])) = None \<and>
   sessions (snd (Shutdown (sample_sys [] [] []) sample_backend Finished
         (sample_proc [sample_conn [0, 0, 0, 1, 0x61]]))) = [sample_conn [0, 0, 0, 1, 0x61]] \<and>
   fst (Shutdown (sample_sys [] [] []) sample_backend
         (TimedOut (ErrNew ''context deadline exceeded'') Stopped)
         (sample_proc [sample_conn [0, 0, 0, 1, 0x61]])) =
     Some (ErrWrap ''server shutdown timed out: '' (ErrNew ''context deadline exceeded'')) \<and>
   sessions (snd (Shutdown (sample_sys [] [] []) sample_backend
         (TimedOut (ErrNew ''context deadline exceeded'') Stopped)
         (sample_proc [sample_conn [0, 0, 0, 1, 0x61]]))) = [sample_conn [0, 0, 0, 1, 0x61]] \<and>
   sessions (snd (Shutdown (sample_sys [] [] []) sample_backend
         (TimedOut (ErrNew ''context deadline exceeded'') NotRun)
         (sample_proc [sample_conn [0, 0, 0, 1, 0x61]]))) = [sample_conn [0, 0, 0, 1, 0x61]] \<and>
   Close \<notin> set (io (sample_conn [0, 0, 0, 1, 0x61]))"
  by (simp add: Shutdown_def Stop_def Let_def sys_call_def sample_sys_def sample_backend_def
      sample_proc_def sample_conn_def sample_listener_def)

subsection \<open>The two framings\<close>

text \<open>The result of \<open>readMessage\<close> of \<open>internal/ipc/server.go\<close>, by what the peer
  delivers: fewer than four bytes, fewer bytes than the prefix announces, or a payload for
  the deserializer.\<close>

lemma readMessage_result:
  "fst (readMessage x s c r) =
     (if length (inbound c) < 4
      then Inl (ErrWrap ''failed to read message length: ''
             (if inbound c \<noteq> [] \<and> in_err c = io_EOF then io_ErrUnexpectedEOF else in_err c))
      else if length (inbound c) < 4 + unat (BigEndian_Uint32 (take 4 (inbound c)))
      then Inl (ErrWrap ''failed to read message data: ''
             (if drop 4 (inbound c) \<noteq> [] \<and> in_err c = io_EOF then io_ErrUnexpectedEOF
              else in_err c))
      else (case msgpack_Unmarshal x
                   (take (unat (BigEndian_Uint32 (take 4 (inbound c)))) (drop 4 (inbound c))) of
              Inl e \<Rightarrow> Inl (ErrWrap ''failed to unmarshal message: '' e)
            | Inr msg \<Rightarrow> Inr msg))"
proof -
  define c0 where
    "c0 = (if \<not> DebugMode (config s)
           then conn_call (SetReadDeadline (time_Add (fst (time_Now r)) (ReadTimeout (config s)))) c
           else c)"
  define r0 where "r0 = (if \<not> DebugMode (config s) then snd (time_Now r) else r)"
  have pre: "(if \<not> DebugMode (config s)
              then (case time_Now r of (t, r1) \<Rightarrow>
                      (conn_call (SetReadDeadline (time_Add t (ReadTimeout (config s)))) c, r1))
              else (c, r)) = (c0, r0)"
    by (simp add: c0_def r0_def case_prod_beta)
  have c0: "inbound c0 = inbound c" "in_err c0 = in_err c"
    by (simp_all add: c0_def conn_call_def)
  show ?thesis
    unfolding readMessage_def pre
    by (auto simp: io_ReadFull_def conn_call_def c0 split: sum.splits)
qed

text \<open>Claim C4, at the code. For the same message \<open>writeMessage\<close> of
  \<open>internal/ipc/server.go\<close> writes the length prefix and the payload, and \<open>writeMessage\<close>
  of the second server file writes the payload alone; \<open>readMessage\<close> of
  \<open>internal/ipc/server.go\<close> reads the first as the message and fails on the second: with
  a short read of the length for a payload of fewer than four bytes, and for a longer
  payload, whose first four bytes it takes for the length, with a short read of the data.
  (For \<open>internal/ipc/server.go\<close> alone, \<open>readMessage_result\<close> gives the three kinds of
  error of the claim.)\<close>

theorem C4_two_framings:
  "written (io (snd (stream_writeMessage sample_ext (Some (sample_request ''a'' ''health_check''))
       (sample_conn [])))) = [0x61] \<and>
   written (io (fst (snd (writeMessage sample_ext (sample_server True)
       (Some (sample_request ''a'' ''health_check'')) (sample_conn []) sample_rt)))) =
     [0, 0, 0, 1, 0x61] \<and>
   fst (readMessage sample_ext (sample_server True) (sample_conn [0x61]) sample_rt) =
     Inl (ErrWrap ''failed to read message length: '' io_ErrUnexpectedEOF) \<and>
   fst (readMessage sample_ext (sample_server True) (sample_conn [0, 0, 0, 1, 0x61]) sample_rt) =
     Inr (sample_request ''a'' ''health_check'') \<and>
   written (io (snd (stream_writeMessage sample_ext
       (Some (sample_request ''aaaaa'' ''health_check'')) (sample_conn [])))) =
     [0x61, 0x61, 0x61, 0x61, 0x61] \<and>
   fst (readMessage sample_ext (sample_server True)
          (sample_conn [0x61, 0x61, 0x61, 0x61, 0x61]) sample_rt) =
     Inl (ErrWrap ''failed to read message data: '' io_ErrUnexpectedEOF)"
  by (simp add: stream_writeMessage_def sample_defs io_defs io_EOF_def)


end
